theory Spec2Isabelle
  imports Main "HOL-Library.Word"
begin

section \<open>Data model of the local-disk blob store\<close>

type_synonym byte = "8 word"

type_synonym Partition = string

text \<open>
  Modelled from the spec: the constant \<open>blobserver.DefaultPartition\<close> is declared outside the
  files at hand; the spec calls it the one well-known default partition, which exists beside
  the named mirror partitions. It is taken to be the empty name.
\<close>

definition DefaultPartition :: Partition where
  "DefaultPartition = []"

record blobref =
  hashName :: string
  digest :: string

record SizedBlobRef =
  BlobRef :: blobref
  Size :: int

datatype errno = EEXIST | ENOENT | EISDIR | EACCES | EIO | ENOSPC

text \<open>
  Modelled from the spec: the layout functions \<open>blobDirectoryName\<close>, \<open>blobFileName\<close>,
  \<open>blobPartitionDirectoryName\<close>, \<open>partitionBlobFileName\<close> and \<open>BlobFileBaseName\<close> are declared
  outside the files at hand. The spec (DiskLayout) makes them a deterministic, collision-free
  mapping: a directory is two digest-prefix shards under the storage root, a file is the
  directory joined with the address's string form, the mirror functions follow the same scheme
  under a subtree of their partition, and the temporary file lives in the blob's own directory
  under the base name followed by \<open>.tmp\<close> and a suffix. Paths are therefore values of a
  datatype, whose constructors are injective and distinct.
\<close>

datatype dirname = ShardDir string string | PartitionShardDir Partition string string

datatype path = BlobPath blobref | PartitionPath Partition blobref | TempPath blobref string

definition blobDirectoryName :: "blobref \<Rightarrow> dirname" where
  "blobDirectoryName b = ShardDir (take 2 (digest b)) (take 2 (drop 2 (digest b)))"

definition blobFileName :: "blobref \<Rightarrow> path" where
  "blobFileName b = BlobPath b"

definition blobPartitionDirectoryName :: "Partition \<Rightarrow> blobref \<Rightarrow> dirname" where
  "blobPartitionDirectoryName prt b =
     PartitionShardDir prt (take 2 (digest b)) (take 2 (drop 2 (digest b)))"

definition partitionBlobFileName :: "Partition \<Rightarrow> blobref \<Rightarrow> path" where
  "partitionBlobFileName prt b = PartitionPath prt b"

text \<open>
  The errors \<open>ReceiveBlob\<close> can return: the operating system's errors (\<open>os.PathError\<close>,
  \<open>os.LinkError\<close>, an error of the source reader), the package's \<open>CorruptBlobError\<close>, and the
  error made by \<open>os.NewError\<close> on line 83.
\<close>

datatype error =
    DirError string dirname errno
  | PathError string path errno
  | LinkError path path errno
  | CopyError errno
  | CorruptBlobError
  | NewError string

datatype kind = Regular | Directory | Other

record inode =
  kind :: kind
  content :: "byte list"

record FileInfo =
  IsRegular :: bool
  stat_Size :: int

text \<open>
  The world \<open>ReceiveBlob\<close> acts on: the names of the storage root, the directories made so far,
  the calls received by the hubs (\<open>NotifyBlobReceived\<close>, in order), and the viewer processes
  started under \<open>-showimages\<close>.
\<close>

record world =
  files :: "path \<rightharpoonup> inode"
  dirs :: "dirname set"
  notified :: "(Partition \<times> blobref) list"
  viewed :: "path list"

text \<open>
  What the operating system and the other processes do during one call: which system call
  fails and how, the suffixes \<open>ioutil.TempFile\<close> draws, how far the copy gets before a read or
  write error, and what another process leaves under the canonical name between the rename and
  the \<open>Lstat\<close> (\<open>None\<close>: it does not touch the name).
\<close>

record env =
  mkdirFault :: "dirname \<Rightarrow> errno option"
  tempFault :: "errno option"
  suffixes :: "string list"
  copyFault :: "(nat \<times> errno) option"
  syncFault :: "errno option"
  closeFault :: "errno option"
  renameFault :: "errno option"
  otherWriter :: "inode option option"
  lstatFault :: "errno option"
  linkFault :: "Partition \<Rightarrow> errno option"

section \<open>System calls\<close>

definition MkdirAll :: "env \<Rightarrow> dirname \<Rightarrow> world \<Rightarrow> error option \<times> world" where
  "MkdirAll e d w =
     (case mkdirFault e d of
        Some en \<Rightarrow> (Some (DirError ''mkdir'' d en), w)
      | None \<Rightarrow> (None, w\<lparr>dirs := insert d (dirs w)\<rparr>))"

text \<open>
  \<open>ioutil.TempFile\<close> opens, with \<open>O_CREATE|O_EXCL\<close>, the first name it draws that does not
  exist, and gives up with \<open>EEXIST\<close> when every draw exists.
\<close>

definition TempFile :: "env \<Rightarrow> blobref \<Rightarrow> world \<Rightarrow> (error + path) \<times> world" where
  "TempFile e b w =
     (case tempFault e of
        Some en \<Rightarrow> (Inl (PathError ''open'' (TempPath b []) en), w)
      | None \<Rightarrow>
          (case find (\<lambda>s. files w (TempPath b s) = None) (suffixes e) of
             None \<Rightarrow> (Inl (PathError ''open'' (TempPath b []) EEXIST), w)
           | Some s \<Rightarrow>
               (Inr (TempPath b s),
                w\<lparr>files := (files w)(TempPath b s \<mapsto> \<lparr>kind = Regular, content = []\<rparr>)\<rparr>)))"

text \<open>
  \<open>io.Copy(io.MultiWriter(hash, tempFile), source)\<close>: the bytes that reached both writers, the
  error if any, and the world with the temporary file holding those bytes.
\<close>

definition Copy :: "env \<Rightarrow> path \<Rightarrow> byte list \<Rightarrow> world \<Rightarrow> byte list \<times> error option \<times> world" where
  "Copy e tempFile source w =
     (case copyFault e of
        Some (n, en) \<Rightarrow>
          (take n source, Some (CopyError en),
           w\<lparr>files := (files w)(tempFile \<mapsto> \<lparr>kind = Regular, content = take n source\<rparr>)\<rparr>)
      | None \<Rightarrow>
          (source, None,
           w\<lparr>files := (files w)(tempFile \<mapsto> \<lparr>kind = Regular, content = source\<rparr>)\<rparr>))"

definition Sync :: "env \<Rightarrow> path \<Rightarrow> error option" where
  "Sync e tempFile = map_option (PathError ''fsync'' tempFile) (syncFault e)"

definition Close :: "env \<Rightarrow> path \<Rightarrow> error option" where
  "Close e tempFile = map_option (PathError ''close'' tempFile) (closeFault e)"

text \<open>
  \<open>blobRef.HashMatches(hash)\<close>: the digest of the bytes written to the hash is the digest the
  reference names. The hash function is a parameter \<open>H\<close>.
\<close>

definition HashMatches :: "(byte list \<Rightarrow> string) \<Rightarrow> blobref \<Rightarrow> byte list \<Rightarrow> bool" where
  "HashMatches H b hashed = (H hashed = digest b)"

text \<open>\<open>rename(2)\<close> replaces an existing destination, unless that is a directory.\<close>

definition Rename :: "env \<Rightarrow> path \<Rightarrow> path \<Rightarrow> world \<Rightarrow> error option \<times> world" where
  "Rename e old new w =
     (case renameFault e of
        Some en \<Rightarrow> (Some (LinkError old new en), w)
      | None \<Rightarrow>
          (case files w old of
             None \<Rightarrow> (Some (LinkError old new ENOENT), w)
           | Some f \<Rightarrow>
               if map_option kind (files w new) = Some Directory
               then (Some (LinkError old new EISDIR), w)
               else (None, w\<lparr>files := (files w)(old := None, new \<mapsto> f)\<rparr>)))"

text \<open>
  Between the rename and the \<open>Lstat\<close> another process may replace or remove what is under the
  canonical name.
\<close>

definition interfere :: "env \<Rightarrow> path \<Rightarrow> world \<Rightarrow> world" where
  "interfere e fileName w =
     (case otherWriter e of
        None \<Rightarrow> w
      | Some x \<Rightarrow> w\<lparr>files := (files w)(fileName := x)\<rparr>)"

definition Lstat :: "env \<Rightarrow> path \<Rightarrow> world \<Rightarrow> error + FileInfo" where
  "Lstat e name w =
     (case lstatFault e of
        Some en \<Rightarrow> Inl (PathError ''lstat'' name en)
      | None \<Rightarrow>
          (case files w name of
             None \<Rightarrow> Inl (PathError ''lstat'' name ENOENT)
           | Some f \<Rightarrow>
               Inr \<lparr>IsRegular = (kind f = Regular), stat_Size = int (length (content f))\<rparr>))"

text \<open>\<open>link(2)\<close> never replaces: an existing target is \<open>EEXIST\<close>.\<close>

definition Link :: "env \<Rightarrow> Partition \<Rightarrow> path \<Rightarrow> path \<Rightarrow> world \<Rightarrow> error option \<times> world" where
  "Link e prt old new w =
     (case linkFault e prt of
        Some en \<Rightarrow> (Some (LinkError old new en), w)
      | None \<Rightarrow>
          (case files w old of
             None \<Rightarrow> (Some (LinkError old new ENOENT), w)
           | Some f \<Rightarrow>
               if files w new \<noteq> None
               then (Some (LinkError old new EEXIST), w)
               else (None, w\<lparr>files := (files w)(new \<mapsto> f)\<rparr>)))"

text \<open>
  \<open>os.Remove\<close>, whose error the deferred function drops: the name is gone afterwards (a name
  that does not exist stays absent).
\<close>

definition Remove :: "path \<Rightarrow> world \<Rightarrow> world" where
  "Remove name w = w\<lparr>files := (files w)(name := None)\<rparr>"

definition NotifyBlobReceived :: "Partition \<Rightarrow> blobref \<Rightarrow> world \<Rightarrow> world" where
  "NotifyBlobReceived prt b w = w\<lparr>notified := notified w @ [(prt, b)]\<rparr>"

section \<open>ReceiveBlob\<close>

text \<open>Lines 87 to 97: the mirror loop, which returns at the first error.\<close>

fun mirror :: "env \<Rightarrow> path \<Rightarrow> blobref \<Rightarrow> Partition list \<Rightarrow> world \<Rightarrow> error option \<times> world" where
  "mirror e fileName b [] w = (None, w)"
| "mirror e fileName b (prt # rest) w =
     (case MkdirAll e (blobPartitionDirectoryName prt b) w of
        (Some err, w1) \<Rightarrow> (Some err, w1)
      | (None, w1) \<Rightarrow>
          (case Link e prt fileName (partitionBlobFileName prt b) w1 of
             (Some err, w2) \<Rightarrow> (Some err, w2)
           | (None, w2) \<Rightarrow> mirror e fileName b rest w2))"

text \<open>Lines 114 to 117.\<close>

fun notifyMirrors :: "blobref \<Rightarrow> Partition list \<Rightarrow> world \<Rightarrow> world" where
  "notifyMirrors b [] w = w"
| "notifyMirrors b (prt # rest) w = notifyMirrors b rest (NotifyBlobReceived prt b w)"

text \<open>
  Lines 78 to 119, after the rename: the result \<open>blobGot\<close>, the error \<open>err\<close>, the flag
  \<open>success\<close> and the world.
\<close>

definition afterRename ::
  "bool \<Rightarrow> env \<Rightarrow> blobref \<Rightarrow> int \<Rightarrow> Partition list \<Rightarrow> path \<Rightarrow> world \<Rightarrow>
     SizedBlobRef option \<times> error option \<times> bool \<times> world" where
  "afterRename flagOpenImages e blobRef written mirrorPartitions fileName w =
     (case Lstat e fileName w of
        Inl err \<Rightarrow> (None, Some err, False, w)
      | Inr stat \<Rightarrow>
          if \<not> IsRegular stat \<or> stat_Size stat \<noteq> written
          then (None, Some (NewError ''Written size didn't match.''), False, w)
          else
            (case mirror e fileName blobRef mirrorPartitions w of
               (Some err, w1) \<Rightarrow> (None, Some err, False, w1)
             | (None, w1) \<Rightarrow>
                 let blobGot = \<lparr>BlobRef = blobRef, Size = stat_Size stat\<rparr>;
                     w2 = (if flagOpenImages then w1\<lparr>viewed := viewed w1 @ [fileName]\<rparr> else w1);
                     w3 = NotifyBlobReceived DefaultPartition blobRef w2;
                     w4 = notifyMirrors blobRef mirrorPartitions w3
                 in (Some blobGot, None, True, w4)))"

text \<open>Lines 55 to 76, then the rest.\<close>

definition afterTempFile ::
  "(byte list \<Rightarrow> string) \<Rightarrow> bool \<Rightarrow> env \<Rightarrow> blobref \<Rightarrow> byte list \<Rightarrow> Partition list \<Rightarrow> path \<Rightarrow>
     world \<Rightarrow> SizedBlobRef option \<times> error option \<times> bool \<times> world" where
  "afterTempFile H flagOpenImages e blobRef source mirrorPartitions tempFile w =
     (case Copy e tempFile source w of
        (hashed, Some err, w1) \<Rightarrow> (None, Some err, False, w1)
      | (hashed, None, w1) \<Rightarrow>
          let written = int (length hashed) in
          (case Sync e tempFile of
             Some err \<Rightarrow> (None, Some err, False, w1)
           | None \<Rightarrow>
               (case Close e tempFile of
                  Some err \<Rightarrow> (None, Some err, False, w1)
                | None \<Rightarrow>
                    if \<not> HashMatches H blobRef hashed
                    then (None, Some CorruptBlobError, False, w1)
                    else
                      let fileName = blobFileName blobRef in
                      (case Rename e tempFile fileName w1 of
                         (Some err, w2) \<Rightarrow> (None, Some err, False, w2)
                       | (None, w2) \<Rightarrow>
                           afterRename flagOpenImages e blobRef written mirrorPartitions fileName
                             (interfere e fileName w2)))))"

text \<open>Lines 48 to 53: the deferred function.\<close>

definition deferred :: "bool \<Rightarrow> path \<Rightarrow> world \<Rightarrow> world" where
  "deferred success tempFile w = (if \<not> success then Remove tempFile w else w)"

text \<open>
  The whole function. It returns its two named results, \<open>blobGot\<close> and \<open>err\<close>, as they stand at
  the \<open>return\<close>, and the world it leaves.
\<close>

definition ReceiveBlob ::
  "(byte list \<Rightarrow> string) \<Rightarrow> bool \<Rightarrow> env \<Rightarrow> blobref \<Rightarrow> byte list \<Rightarrow> Partition list \<Rightarrow> world \<Rightarrow>
     (SizedBlobRef option \<times> error option) \<times> world" where
  "ReceiveBlob H flagOpenImages e blobRef source mirrorPartitions w =
     (let hashedDirectory = blobDirectoryName blobRef in
      case MkdirAll e hashedDirectory w of
        (Some err, w1) \<Rightarrow> ((None, Some err), w1)
      | (None, w1) \<Rightarrow>
          (case TempFile e blobRef w1 of
             (Inl err, w2) \<Rightarrow> ((None, Some err), w2)
           | (Inr tempFile, w2) \<Rightarrow>
               (case afterTempFile H flagOpenImages e blobRef source mirrorPartitions tempFile w2 of
                  (blobGot, err, success, w3) \<Rightarrow>
                    ((blobGot, err), deferred success tempFile w3))))"

section \<open>Stages of a call\<close>

text \<open>
  The temporary name the call opens, if any; whether the call gets as far as the rename
  (lines 35 to 71 raise no error); whether the rename happens; and the world right after the
  rename.
\<close>

definition tempName :: "env \<Rightarrow> blobref \<Rightarrow> world \<Rightarrow> path option" where
  "tempName e b w = map_option (TempPath b) (find (\<lambda>s. files w (TempPath b s) = None) (suffixes e))"

definition reachesRename :: "(byte list \<Rightarrow> string) \<Rightarrow> env \<Rightarrow> blobref \<Rightarrow> byte list \<Rightarrow> world \<Rightarrow> bool" where
  "reachesRename H e b source w =
     (mkdirFault e (blobDirectoryName b) = None \<and> tempFault e = None \<and>
      tempName e b w \<noteq> None \<and>
      copyFault e = None \<and> syncFault e = None \<and> closeFault e = None \<and>
      HashMatches H b source)"

definition commits :: "(byte list \<Rightarrow> string) \<Rightarrow> env \<Rightarrow> blobref \<Rightarrow> byte list \<Rightarrow> world \<Rightarrow> bool" where
  "commits H e b source w =
     (reachesRename H e b source w \<and> renameFault e = None \<and>
      map_option kind (files w (blobFileName b)) \<noteq> Some Directory)"

definition committed :: "blobref \<Rightarrow> byte list \<Rightarrow> world \<Rightarrow> world" where
  "committed b source w =
     w\<lparr>dirs := insert (blobDirectoryName b) (dirs w),
       files := (files w)(blobFileName b \<mapsto> \<lparr>kind = Regular, content = source\<rparr>)\<rparr>"

text \<open>
  An environment in which no system call on the way to a plain receive fails and no other
  process touches the canonical name.
\<close>

definition undisturbed :: "env \<Rightarrow> blobref \<Rightarrow> bool" where
  "undisturbed e b =
     (mkdirFault e (blobDirectoryName b) = None \<and> tempFault e = None \<and> copyFault e = None \<and>
      syncFault e = None \<and> closeFault e = None \<and> renameFault e = None \<and>
      otherWriter e = None \<and> lstatFault e = None)"

text \<open>
  Worlds met along a call: the temporary file open with some bytes in it, the blob renamed to
  its canonical name, the same after the other processes had their turn, and one more mirror
  linked.
\<close>

definition opened :: "blobref \<Rightarrow> path \<Rightarrow> byte list \<Rightarrow> world \<Rightarrow> world" where
  "opened b t bytes w =
     w\<lparr>dirs := insert (blobDirectoryName b) (dirs w),
       files := (files w)(t \<mapsto> \<lparr>kind = Regular, content = bytes\<rparr>)\<rparr>"

definition renamed :: "env \<Rightarrow> blobref \<Rightarrow> byte list \<Rightarrow> world \<Rightarrow> world" where
  "renamed e b source w = interfere e (blobFileName b) (committed b source w)"

definition linked :: "blobref \<Rightarrow> Partition \<Rightarrow> inode \<Rightarrow> world \<Rightarrow> world" where
  "linked b p f w =
     w\<lparr>dirs := insert (blobPartitionDirectoryName p b) (dirs w),
       files := (files w)(partitionBlobFileName p b \<mapsto> f)\<rparr>"

section \<open>The index's batch of mutations\<close>

text \<open>
  \<open>index.go\<close>, lines 41 to 57. The methods have a pointer receiver and mutate the batch in
  place, so the objects live in a store: a map from addresses to objects, where a batch and the
  key/value table of an \<open>IndexStorage\<close> are different objects. A call through an address that
  holds no batch is Go's nil-pointer panic, \<open>None\<close>.
\<close>

record mutation =
  key :: string
  val :: string
  delete :: bool

record batch =
  m :: "mutation list"

datatype obj = Batch batch | Store "string \<rightharpoonup> string"

type_synonym heap = "nat \<rightharpoonup> obj"

definition batch_Delete :: "nat \<Rightarrow> string \<Rightarrow> heap \<Rightarrow> heap option" where
  "batch_Delete a k h =
     (case h a of
        Some (Batch bt) \<Rightarrow>
          Some (h(a \<mapsto> Batch (bt\<lparr>m := m bt @ [\<lparr>key = k, val = [], delete = True\<rparr>]\<rparr>)))
      | _ \<Rightarrow> None)"

definition batch_Set :: "nat \<Rightarrow> string \<Rightarrow> string \<Rightarrow> heap \<Rightarrow> heap option" where
  "batch_Set a k v h =
     (case h a of
        Some (Batch bt) \<Rightarrow>
          Some (h(a \<mapsto> Batch (bt\<lparr>m := m bt @ [\<lparr>key = k, val = v, delete = False\<rparr>]\<rparr>)))
      | _ \<Rightarrow> None)"

text \<open>A caller's sequence of staging calls on one batch, and the mutation each call appends.\<close>

datatype staging = SetCall string string | DeleteCall string

fun staged :: "staging \<Rightarrow> mutation" where
  "staged (SetCall k v) = \<lparr>key = k, val = v, delete = False\<rparr>"
| "staged (DeleteCall k) = \<lparr>key = k, val = [], delete = True\<rparr>"

fun stage :: "nat \<Rightarrow> staging list \<Rightarrow> heap \<Rightarrow> heap option" where
  "stage a [] h = Some h"
| "stage a (SetCall k v # rest) h =
     (case batch_Set a k v h of None \<Rightarrow> None | Some h1 \<Rightarrow> stage a rest h1)"
| "stage a (DeleteCall k # rest) h =
     (case batch_Delete a k h of None \<Rightarrow> None | Some h1 \<Rightarrow> stage a rest h1)"

section \<open>Concrete inputs\<close>

text \<open>
  A stand-in hash (the length of the input, in unary), a reference to the three-byte blob with
  that digest, an environment in which nothing fails and nobody interferes, and the empty
  storage root.
\<close>

definition unaryHash :: "byte list \<Rightarrow> string" where
  "unaryHash bytes = replicate (length bytes) CHR ''a''"

definition ref3 :: blobref where
  "ref3 = \<lparr>hashName = ''unary'', digest = ''aaa''\<rparr>"

definition quiet :: env where
  "quiet =
     \<lparr>mkdirFault = (\<lambda>d. None), tempFault = None, suffixes = [''0001''], copyFault = None,
      syncFault = None, closeFault = None, renameFault = None, otherWriter = None,
      lstatFault = None, linkFault = (\<lambda>p. None)\<rparr>"

definition emptyWorld :: world where
  "emptyWorld = \<lparr>files = Map.empty, dirs = {}, notified = [], viewed = []\<rparr>"

text \<open>The storage root after the three-byte blob was received once.\<close>

definition storedWorld :: world where
  "storedWorld = snd (ReceiveBlob unaryHash False quiet ref3 [1, 2, 3] [] emptyWorld)"

text \<open>The storage root after the same blob was received once with the mirror partition \<open>p1\<close>.\<close>

definition mirroredWorld :: world where
  "mirroredWorld = snd (ReceiveBlob unaryHash False quiet ref3 [1, 2, 3] [''p1''] emptyWorld)"

text \<open>
  Environments in which one thing goes wrong: the copy breaks after one byte, the \<open>Lstat\<close>
  fails, another process truncates the committed file to one byte or rewrites it with three
  other bytes, the directory of partition \<open>p2\<close> cannot be made.
\<close>

definition failingCopy :: env where
  "failingCopy = quiet\<lparr>copyFault := Some (1, EIO)\<rparr>"

definition failingLstat :: env where
  "failingLstat = quiet\<lparr>lstatFault := Some EIO\<rparr>"

definition truncating :: env where
  "truncating = quiet\<lparr>otherWriter := Some (Some \<lparr>kind = Regular, content = [1]\<rparr>)\<rparr>"

definition rewriting :: env where
  "rewriting = quiet\<lparr>otherWriter := Some (Some \<lparr>kind = Regular, content = [7, 8, 9]\<rparr>)\<rparr>"

definition denied :: env where
  "denied =
     quiet\<lparr>mkdirFault :=
              (\<lambda>d. if d = blobPartitionDirectoryName ''p2'' ref3 then Some EACCES else None)\<rparr>"

text \<open>A store with a key/value table at address 0 and a fresh batch at address 1.\<close>

definition indexHeap :: heap where
  "indexHeap = [0 \<mapsto> Store [''k'' \<mapsto> ''v''], 1 \<mapsto> Batch \<lparr>m = []\<rparr>]"

section \<open>The call before and after the rename\<close>

lemma tempName_fresh: "tempName e b w = Some t \<Longrightarrow> files w t = None"
  by (auto simp: tempName_def find_Some_iff)

lemma tempName_not_canonical: "tempName e b w = Some t \<Longrightarrow> t \<noteq> partitionBlobFileName p b'"
  by (auto simp: tempName_def partitionBlobFileName_def)

lemma tempName_not_blobFileName: "tempName e b w = Some t \<Longrightarrow> t \<noteq> blobFileName b'"
  by (auto simp: tempName_def blobFileName_def)

lemma ReceiveBlob_mkdir_fails:
  "mkdirFault e (blobDirectoryName b) = Some en \<Longrightarrow>
   ReceiveBlob H f e b source ps w = ((None, Some (DirError ''mkdir'' (blobDirectoryName b) en)), w)"
  by (simp add: ReceiveBlob_def MkdirAll_def)

lemma ReceiveBlob_temp_fails:
  "mkdirFault e (blobDirectoryName b) = None \<Longrightarrow> tempFault e = Some en \<Longrightarrow>
   ReceiveBlob H f e b source ps w =
     ((None, Some (PathError ''open'' (TempPath b []) en)),
      w\<lparr>dirs := insert (blobDirectoryName b) (dirs w)\<rparr>)"
  by (simp add: ReceiveBlob_def MkdirAll_def TempFile_def)

lemma ReceiveBlob_temp_exhausted:
  "mkdirFault e (blobDirectoryName b) = None \<Longrightarrow> tempFault e = None \<Longrightarrow>
   tempName e b w = None \<Longrightarrow>
   ReceiveBlob H f e b source ps w =
     ((None, Some (PathError ''open'' (TempPath b []) EEXIST)),
      w\<lparr>dirs := insert (blobDirectoryName b) (dirs w)\<rparr>)"
  by (simp add: ReceiveBlob_def MkdirAll_def TempFile_def tempName_def)

lemma ReceiveBlob_temp_ok:
  assumes "mkdirFault e (blobDirectoryName b) = None" "tempFault e = None"
    and "tempName e b w = Some t"
  shows "ReceiveBlob H f e b source ps w =
     (case afterTempFile H f e b source ps t (opened b t [] w) of
        (blobGot, err, success, w3) \<Rightarrow> ((blobGot, err), deferred success t w3))"
proof -
  from assms(3) obtain s where "find (\<lambda>s. files w (TempPath b s) = None) (suffixes e) = Some s"
    and "t = TempPath b s"
    by (auto simp: tempName_def)
  then show ?thesis using assms(1,2)
    by (simp add: ReceiveBlob_def MkdirAll_def TempFile_def opened_def)
qed

lemma afterTempFile_copy_fails:
  "copyFault e = Some (n, en) \<Longrightarrow>
   afterTempFile H f e b source ps t (opened b t [] w) =
     (None, Some (CopyError en), False, opened b t (take n source) w)"
  by (simp add: afterTempFile_def Copy_def opened_def)

lemma afterTempFile_sync_fails:
  "copyFault e = None \<Longrightarrow> syncFault e = Some en \<Longrightarrow>
   afterTempFile H f e b source ps t (opened b t [] w) =
     (None, Some (PathError ''fsync'' t en), False, opened b t source w)"
  by (simp add: afterTempFile_def Copy_def Sync_def opened_def)

lemma afterTempFile_close_fails:
  "copyFault e = None \<Longrightarrow> syncFault e = None \<Longrightarrow> closeFault e = Some en \<Longrightarrow>
   afterTempFile H f e b source ps t (opened b t [] w) =
     (None, Some (PathError ''close'' t en), False, opened b t source w)"
  by (simp add: afterTempFile_def Copy_def Sync_def Close_def opened_def)

lemma afterTempFile_corrupt:
  "copyFault e = None \<Longrightarrow> syncFault e = None \<Longrightarrow> closeFault e = None \<Longrightarrow>
   \<not> HashMatches H b source \<Longrightarrow>
   afterTempFile H f e b source ps t (opened b t [] w) =
     (None, Some CorruptBlobError, False, opened b t source w)"
  by (simp add: afterTempFile_def Copy_def Sync_def Close_def opened_def)

lemma afterTempFile_rename_fails:
  "copyFault e = None \<Longrightarrow> syncFault e = None \<Longrightarrow> closeFault e = None \<Longrightarrow>
   HashMatches H b source \<Longrightarrow> renameFault e = Some en \<Longrightarrow>
   afterTempFile H f e b source ps t (opened b t [] w) =
     (None, Some (LinkError t (blobFileName b) en), False, opened b t source w)"
  by (simp add: afterTempFile_def Copy_def Sync_def Close_def Rename_def opened_def)

lemma afterTempFile_rename_isdir:
  "copyFault e = None \<Longrightarrow> syncFault e = None \<Longrightarrow> closeFault e = None \<Longrightarrow>
   HashMatches H b source \<Longrightarrow> renameFault e = None \<Longrightarrow> t \<noteq> blobFileName b \<Longrightarrow>
   map_option kind (files w (blobFileName b)) = Some Directory \<Longrightarrow>
   afterTempFile H f e b source ps t (opened b t [] w) =
     (None, Some (LinkError t (blobFileName b) EISDIR), False, opened b t source w)"
  by (cases "files w (blobFileName b)")
    (simp_all add: afterTempFile_def Copy_def Sync_def Close_def Rename_def opened_def Let_def)

lemma afterTempFile_renamed:
  "copyFault e = None \<Longrightarrow> syncFault e = None \<Longrightarrow> closeFault e = None \<Longrightarrow>
   HashMatches H b source \<Longrightarrow> renameFault e = None \<Longrightarrow> t \<noteq> blobFileName b \<Longrightarrow>
   files w t = None \<Longrightarrow>
   map_option kind (files w (blobFileName b)) \<noteq> Some Directory \<Longrightarrow>
   afterTempFile H f e b source ps t (opened b t [] w) =
     afterRename f e b (int (length source)) ps (blobFileName b)
       (interfere e (blobFileName b) (committed b source w))"
  by (cases "files w (blobFileName b)")
    (simp_all add: afterTempFile_def Copy_def Sync_def Close_def Rename_def opened_def committed_def
      Let_def fun_upd_idem)

lemma deferred_opened:
  "files w t = None \<Longrightarrow>
   deferred False t (opened b t bytes w) = w\<lparr>dirs := insert (blobDirectoryName b) (dirs w)\<rparr>"
  by (simp add: deferred_def Remove_def opened_def fun_upd_idem)


lemma ReceiveBlob_committed:
  assumes c: "commits H e b source w" and t: "tempName e b w = Some t"
  shows "ReceiveBlob H f e b source ps w =
     (case afterRename f e b (int (length source)) ps (blobFileName b)
             (interfere e (blobFileName b) (committed b source w)) of
        (blobGot, err, success, w3) \<Rightarrow> ((blobGot, err), deferred success t w3))"
proof -
  have ne: "t \<noteq> blobFileName b"
    by (rule tempName_not_blobFileName [OF t])
  have "afterTempFile H f e b source ps t (opened b t [] w) =
     afterRename f e b (int (length source)) ps (blobFileName b)
       (interfere e (blobFileName b) (committed b source w))"
    using c ne tempName_fresh [OF t]
    by (intro afterTempFile_renamed) (simp_all add: commits_def reachesRename_def)
  then show ?thesis
    using c t by (simp add: ReceiveBlob_temp_ok commits_def reachesRename_def)
qed

lemma ReceiveBlob_uncommitted:
  assumes "\<not> commits H e b source w"
  shows "\<exists>err. fst (ReceiveBlob H f e b source ps w) = (None, Some err) \<and>
           files (snd (ReceiveBlob H f e b source ps w)) = files w \<and>
           notified (snd (ReceiveBlob H f e b source ps w)) = notified w \<and>
           viewed (snd (ReceiveBlob H f e b source ps w)) = viewed w"
proof (cases "mkdirFault e (blobDirectoryName b)")
  case (Some en)
  then show ?thesis by (simp add: ReceiveBlob_mkdir_fails)
next
  case mk: None
  show ?thesis
  proof (cases "tempFault e")
    case (Some en)
    then show ?thesis using mk by (simp add: ReceiveBlob_temp_fails)
  next
    case tf: None
    show ?thesis
    proof (cases "tempName e b w")
      case None
      then show ?thesis using mk tf by (simp add: ReceiveBlob_temp_exhausted)
    next
      case (Some t)
      note fresh = tempName_fresh [OF Some]
      have ne: "t \<noteq> blobFileName b"
        by (rule tempName_not_blobFileName [OF Some])
      note rb = ReceiveBlob_temp_ok [OF mk tf Some]
      have "\<exists>err bytes. afterTempFile H f e b source ps t (opened b t [] w) =
              (None, Some err, False, opened b t bytes w)"
      proof (cases "copyFault e")
        case (Some a)
        then show ?thesis by (cases a) (auto simp: afterTempFile_copy_fails)
      next
        case cp: None
        show ?thesis
        proof (cases "syncFault e")
          case (Some en)
          then show ?thesis using cp by (auto simp: afterTempFile_sync_fails)
        next
          case sy: None
          show ?thesis
          proof (cases "closeFault e")
            case (Some en)
            then show ?thesis using cp sy by (auto simp: afterTempFile_close_fails)
          next
            case cl: None
            show ?thesis
            proof (cases "HashMatches H b source")
              case False
              then show ?thesis using cp sy cl by (auto simp: afterTempFile_corrupt)
            next
              case hm: True
              show ?thesis
              proof (cases "renameFault e")
                case (Some en)
                then show ?thesis using cp sy cl hm by (auto simp: afterTempFile_rename_fails)
              next
                case None
                then have "map_option kind (files w (blobFileName b)) = Some Directory"
                  using assms mk tf \<open>tempName e b w = Some t\<close> cp sy cl hm
                  by (simp add: commits_def reachesRename_def)
                then show ?thesis using cp sy cl hm None ne
                  by (auto simp: afterTempFile_rename_isdir)
              qed
            qed
          qed
        qed
      qed
      then obtain err bytes where
        "afterTempFile H f e b source ps t (opened b t [] w) =
              (None, Some err, False, opened b t bytes w)"
        by blast
      then show ?thesis
        using fresh by (simp add: rb deferred_opened)
    qed
  qed
qed


lemma mirror_step_fails:
  "mkdirFault e (blobPartitionDirectoryName p b) \<noteq> None \<or> linkFault e p \<noteq> None \<or>
   files w fn = None \<or> files w (partitionBlobFileName p b) \<noteq> None \<Longrightarrow>
   fst (mirror e fn b (p # ps) w) \<noteq> None \<and>
   files (snd (mirror e fn b (p # ps) w)) = files w \<and>
   notified (snd (mirror e fn b (p # ps) w)) = notified w \<and>
   viewed (snd (mirror e fn b (p # ps) w)) = viewed w"
  by (cases "mkdirFault e (blobPartitionDirectoryName p b)"; cases "linkFault e p";
      cases "files w fn"; cases "files w (partitionBlobFileName p b)";
      simp add: MkdirAll_def Link_def)

lemma mirror_step_links:
  "mkdirFault e (blobPartitionDirectoryName p b) = None \<Longrightarrow> linkFault e p = None \<Longrightarrow>
   files w fn = Some f \<Longrightarrow> files w (partitionBlobFileName p b) = None \<Longrightarrow>
   mirror e fn b (p # ps) w = mirror e fn b ps (linked b p f w)"
  by (simp add: MkdirAll_def Link_def linked_def)

lemma mirror_step_cases:
  obtains (fails) "fst (mirror e fn b (p # ps) w) \<noteq> None"
      "files (snd (mirror e fn b (p # ps) w)) = files w"
      "notified (snd (mirror e fn b (p # ps) w)) = notified w"
      "viewed (snd (mirror e fn b (p # ps) w)) = viewed w"
  | (links) f where "files w fn = Some f" "files w (partitionBlobFileName p b) = None"
      "mkdirFault e (blobPartitionDirectoryName p b) = None" "linkFault e p = None"
      "mirror e fn b (p # ps) w = mirror e fn b ps (linked b p f w)"
proof (cases "mkdirFault e (blobPartitionDirectoryName p b) \<noteq> None \<or> linkFault e p \<noteq> None \<or>
   files w fn = None \<or> files w (partitionBlobFileName p b) \<noteq> None")
  case True
  from mirror_step_fails [OF True] show ?thesis using fails by blast
next
  case False
  then obtain f where f: "files w fn = Some f" by auto
  from False have "mkdirFault e (blobPartitionDirectoryName p b) = None" "linkFault e p = None"
    "files w (partitionBlobFileName p b) = None" by auto
  with f show ?thesis using links mirror_step_links by blast
qed

lemma mirror_notified: "notified (snd (mirror e fn b ps w)) = notified w"
proof (induction ps arbitrary: w)
  case Nil
  show ?case by simp
next
  case (Cons p ps)
  show ?case
  proof (cases rule: mirror_step_cases [of e fn b p ps w])
    case fails
    then show ?thesis by simp
  next
    case (links f)
    show ?thesis unfolding links(5) by (simp add: Cons.IH) (simp add: linked_def)
  qed
qed

lemma mirror_viewed: "viewed (snd (mirror e fn b ps w)) = viewed w"
proof (induction ps arbitrary: w)
  case Nil
  show ?case by simp
next
  case (Cons p ps)
  show ?case
  proof (cases rule: mirror_step_cases [of e fn b p ps w])
    case fails
    then show ?thesis by simp
  next
    case (links f)
    show ?thesis unfolding links(5) by (simp add: Cons.IH) (simp add: linked_def)
  qed
qed

lemma mirror_keeps:
  "files w name = Some x \<Longrightarrow> files (snd (mirror e fn b ps w)) name = Some x"
proof (induction ps arbitrary: w)
  case Nil
  then show ?case by simp
next
  case (Cons p ps)
  show ?case
  proof (cases rule: mirror_step_cases [of e fn b p ps w])
    case fails
    then show ?thesis using Cons.prems by simp
  next
    case (links f)
    have "name \<noteq> partitionBlobFileName p b" using links(2) Cons.prems by auto
    then have "files (linked b p f w) name = Some x"
      using Cons.prems by (simp add: linked_def)
    then show ?thesis unfolding links(5) by (rule Cons.IH)
  qed
qed

lemma mirror_other:
  "name \<notin> (\<lambda>q. partitionBlobFileName q b) ` set ps \<Longrightarrow>
     files (snd (mirror e fn b ps w)) name = files w name"
proof (induction ps arbitrary: w)
  case Nil
  then show ?case by simp
next
  case (Cons p ps)
  show ?case
  proof (cases rule: mirror_step_cases [of e fn b p ps w])
    case fails
    then show ?thesis by simp
  next
    case (links f)
    have "files (snd (mirror e fn b ps (linked b p f w))) name = files (linked b p f w) name"
      using Cons.prems by (intro Cons.IH) simp
    then show ?thesis unfolding links(5) using Cons.prems by (simp add: linked_def)
  qed
qed

lemma mirror_ok:
  "mirror e fn b ps w = (None, w') \<Longrightarrow>
     distinct ps \<and>
     (\<forall>q\<in>set ps. files w (partitionBlobFileName q b) = None \<and>
                  files w' (partitionBlobFileName q b) = files w fn \<and> files w fn \<noteq> None \<and>
                  mkdirFault e (blobPartitionDirectoryName q b) = None \<and> linkFault e q = None)"
proof (induction ps arbitrary: w)
  case Nil
  then show ?case by simp
next
  case (Cons p ps)
  show ?case
  proof (cases rule: mirror_step_cases [of e fn b p ps w])
    case fails
    then show ?thesis using Cons.prems by simp
  next
    case (links f)
    let ?new = "partitionBlobFileName p b"
    let ?w2 = "linked b p f w"
    have rest: "mirror e fn b ps ?w2 = (None, w')"
      using Cons.prems links(5) by simp
    have ne: "fn \<noteq> ?new" using links(1,2) by auto
    from Cons.IH [OF rest] have d: "distinct ps"
      and ih: "\<forall>q\<in>set ps. files ?w2 (partitionBlobFileName q b) = None \<and>
                  files w' (partitionBlobFileName q b) = files ?w2 fn \<and> files ?w2 fn \<noteq> None \<and>
                  mkdirFault e (blobPartitionDirectoryName q b) = None \<and> linkFault e q = None"
      by auto
    have new2: "files ?w2 ?new = Some f" by (simp add: linked_def)
    have pn: "p \<notin> set ps" using ih new2 by auto
    have keep: "files w' ?new = Some f"
      using mirror_keeps [OF new2, of e fn b ps] rest by simp
    have fn2: "files ?w2 fn = files w fn" using ne by (simp add: linked_def)
    have old: "files w (partitionBlobFileName q b) = None" if "q \<in> set ps" for q
    proof -
      from that ih have "files ?w2 (partitionBlobFileName q b) = None" by blast
      moreover from that pn have "partitionBlobFileName q b \<noteq> ?new"
        by (auto simp: partitionBlobFileName_def)
      ultimately show ?thesis by (simp add: linked_def)
    qed
    show ?thesis
      using d pn ih links(1,2,3,4) keep fn2 old by auto
  qed
qed



lemma notifyMirrors_files: "files (notifyMirrors b ps w) = files w"
  by (induction ps arbitrary: w) (simp_all add: NotifyBlobReceived_def)

lemma afterRename_lstat_fails:
  "Lstat e fn w = Inl err \<Longrightarrow> afterRename f e b n ps fn w = (None, Some err, False, w)"
  by (simp add: afterRename_def)

lemma afterRename_mismatch:
  "Lstat e fn w = Inr st \<Longrightarrow> \<not> IsRegular st \<or> stat_Size st \<noteq> n \<Longrightarrow>
   afterRename f e b n ps fn w = (None, Some (NewError ''Written size didn't match.''), False, w)"
  by (auto simp: afterRename_def)

lemma afterRename_mirror_fails:
  "Lstat e fn w = Inr st \<Longrightarrow> IsRegular st \<Longrightarrow> stat_Size st = n \<Longrightarrow>
   mirror e fn b ps w = (Some err, w1) \<Longrightarrow>
   afterRename f e b n ps fn w = (None, Some err, False, w1)"
  by (simp add: afterRename_def)

lemma afterRename_ok:
  "Lstat e fn w = Inr st \<Longrightarrow> IsRegular st \<Longrightarrow> stat_Size st = n \<Longrightarrow>
   mirror e fn b ps w = (None, w1) \<Longrightarrow>
   afterRename f e b n ps fn w =
     (Some \<lparr>BlobRef = b, Size = n\<rparr>, None, True,
      notifyMirrors b ps (NotifyBlobReceived DefaultPartition b
        (if f then w1\<lparr>viewed := viewed w1 @ [fn]\<rparr> else w1)))"
  by (simp add: afterRename_def Let_def)

lemma afterRename_cases:
  obtains (fails) err w1 where "afterRename f e b n ps fn w = (None, Some err, False, w1)"
      "notified w1 = notified w" "viewed w1 = viewed w"
      "files w1 = files w \<or> w1 = snd (mirror e fn b ps w)"
  | (ok) st w1 where "afterRename f e b n ps fn w =
        (Some \<lparr>BlobRef = b, Size = n\<rparr>, None, True,
         notifyMirrors b ps (NotifyBlobReceived DefaultPartition b
           (if f then w1\<lparr>viewed := viewed w1 @ [fn]\<rparr> else w1)))"
      "Lstat e fn w = Inr st" "IsRegular st" "stat_Size st = n" "mirror e fn b ps w = (None, w1)"
proof (cases "Lstat e fn w")
  case (Inl err)
  then show ?thesis using fails [of err w] by (simp add: afterRename_lstat_fails)
next
  case (Inr st)
  show ?thesis
  proof (cases "\<not> IsRegular st \<or> stat_Size st \<noteq> n")
    case True
    from afterRename_mismatch [OF Inr True] show ?thesis using fails by blast
  next
    case False
    then have reg: "IsRegular st" "stat_Size st = n" by auto
    obtain r w1 where m: "mirror e fn b ps w = (r, w1)" by (cases "mirror e fn b ps w")
    show ?thesis
    proof (cases r)
      case None
      with afterRename_ok [OF Inr reg] m ok Inr reg show ?thesis by blast
    next
      case (Some err)
      have "notified w1 = notified w" "viewed w1 = viewed w" "w1 = snd (mirror e fn b ps w)"
        using mirror_notified [of e fn b ps w] mirror_viewed [of e fn b ps w] m by simp_all
      with afterRename_mirror_fails [OF Inr reg] m Some fails show ?thesis by blast
    qed
  qed
qed

lemma afterRename_keeps:
  assumes "files w name = Some x"
  shows "files (snd (snd (snd (afterRename f e b n ps fn w)))) name = Some x"
proof (cases rule: afterRename_cases [of f e b n ps fn w])
  case (fails err w1)
  then show ?thesis using assms mirror_keeps [OF assms, of e fn b ps] by auto
next
  case (ok st w1)
  then show ?thesis using mirror_keeps [OF assms, of e fn b ps]
    by (simp add: notifyMirrors_files NotifyBlobReceived_def)
qed

lemma afterRename_other:
  assumes "name \<notin> (\<lambda>q. partitionBlobFileName q b) ` set ps"
  shows "files (snd (snd (snd (afterRename f e b n ps fn w)))) name = files w name"
proof (cases rule: afterRename_cases [of f e b n ps fn w])
  case (fails err w1)
  then show ?thesis using mirror_other [OF assms, of e fn w] by auto
next
  case (ok st w1)
  then show ?thesis using mirror_other [OF assms, of e fn w]
    by (simp add: notifyMirrors_files NotifyBlobReceived_def)
qed

lemma renamed_frame:
  "notified (renamed e b source w) = notified w"
  "viewed (renamed e b source w) = viewed w"
  "name \<noteq> blobFileName b \<Longrightarrow> files (renamed e b source w) name = files w name"
  by (simp_all add: renamed_def interfere_def committed_def split: option.splits)

lemma ReceiveBlob_after_commit:
  assumes c: "commits H e b source w"
  shows "fst (ReceiveBlob H f e b source ps w) =
           (fst (afterRename f e b (int (length source)) ps (blobFileName b) (renamed e b source w)),
            fst (snd (afterRename f e b (int (length source)) ps (blobFileName b) (renamed e b source w))))"
    and "files (snd (ReceiveBlob H f e b source ps w)) =
           files (snd (snd (snd (afterRename f e b (int (length source)) ps (blobFileName b)
             (renamed e b source w)))))"
    and "notified (snd (ReceiveBlob H f e b source ps w)) =
           notified (snd (snd (snd (afterRename f e b (int (length source)) ps (blobFileName b)
             (renamed e b source w)))))"
    and "viewed (snd (ReceiveBlob H f e b source ps w)) =
           viewed (snd (snd (snd (afterRename f e b (int (length source)) ps (blobFileName b)
             (renamed e b source w)))))"
proof -
  let ?AR = "afterRename f e b (int (length source)) ps (blobFileName b) (renamed e b source w)"
  from c obtain t where t: "tempName e b w = Some t"
    by (auto simp: commits_def reachesRename_def)
  obtain bg er su w1 where ar: "?AR = (bg, er, su, w1)" by (cases ?AR)
  have rb: "ReceiveBlob H f e b source ps w = ((bg, er), deferred su t w1)"
    using ReceiveBlob_committed [OF c t, of f ps] ar by (simp add: renamed_def)
  have ne: "t \<noteq> blobFileName b"
    by (rule tempName_not_blobFileName [OF t])
  have "t \<notin> (\<lambda>q. partitionBlobFileName q b) ` set ps"
    using tempName_not_canonical [OF t] by auto
  from afterRename_other [OF this, of f e "int (length source)" "blobFileName b" "renamed e b source w"]
  have "files w1 t = None"
    using ar ne tempName_fresh [OF t] by (simp add: renamed_frame)
  then have "files (deferred su t w1) = files w1"
    by (simp add: deferred_def Remove_def fun_upd_idem)
  then show "fst (ReceiveBlob H f e b source ps w) = (fst ?AR, fst (snd ?AR))"
    and "files (snd (ReceiveBlob H f e b source ps w)) = files (snd (snd (snd ?AR)))"
    and "notified (snd (ReceiveBlob H f e b source ps w)) = notified (snd (snd (snd ?AR)))"
    and "viewed (snd (ReceiveBlob H f e b source ps w)) = viewed (snd (snd (snd ?AR)))"
    using rb ar by (simp_all add: deferred_def Remove_def)
qed

lemma files_renamed_canonical:
  "files (renamed e b source w) (blobFileName b) =
     (case otherWriter e of None \<Rightarrow> Some \<lparr>kind = Regular, content = source\<rparr> | Some x \<Rightarrow> x)"
  by (simp add: renamed_def interfere_def committed_def split: option.splits)

lemma Lstat_renamed:
  "lstatFault e = None \<Longrightarrow>
   Lstat e (blobFileName b) (renamed e b source w) =
     (case otherWriter e of
        None \<Rightarrow> Inr \<lparr>IsRegular = True, stat_Size = int (length source)\<rparr>
      | Some None \<Rightarrow> Inl (PathError ''lstat'' (blobFileName b) ENOENT)
      | Some (Some x) \<Rightarrow>
          Inr \<lparr>IsRegular = (kind x = Regular), stat_Size = int (length (content x))\<rparr>)"
  by (simp add: Lstat_def files_renamed_canonical split: option.splits)

lemma afterRename_canonical:
  "files (snd (snd (snd (afterRename f e b n ps fn w)))) fn = files w fn"
proof (cases "files w fn")
  case None
  then have "\<exists>err. Lstat e fn w = Inl err"
    by (simp add: Lstat_def split: option.splits)
  then show ?thesis using None by (auto simp: afterRename_lstat_fails)
next
  case (Some x)
  then show ?thesis by (simp add: afterRename_keeps)
qed

lemma ReceiveBlob_temp_names:
  "files (snd (ReceiveBlob H f e b source ps w)) (TempPath b' s) = files w (TempPath b' s)"
proof (cases "commits H e b source w")
  case False
  from ReceiveBlob_uncommitted [OF False, of f ps] show ?thesis by auto
next
  case True
  have "TempPath b' s \<notin> (\<lambda>q. partitionBlobFileName q b) ` set ps"
    by (auto simp: partitionBlobFileName_def)
  from afterRename_other [OF this] show ?thesis
    by (simp add: ReceiveBlob_after_commit(2) [OF True] renamed_frame blobFileName_def
        partitionBlobFileName_def)
qed

lemma tempName_after: "tempName e' b' (snd (ReceiveBlob H f e b source ps w)) = tempName e' b' w"
proof -
  have "find (\<lambda>s. files (snd (ReceiveBlob H f e b source ps w)) (TempPath b' s) = None) (suffixes e') =
        find (\<lambda>s. files w (TempPath b' s) = None) (suffixes e')"
    by (rule find_cong) (simp_all add: ReceiveBlob_temp_names)
  then show ?thesis by (simp add: tempName_def)
qed

lemma ReceiveBlob_temp_gone:
  assumes "tempName e b w = Some t"
  shows "files (snd (ReceiveBlob H f e b source ps w)) t = None"
proof -
  from assms obtain s where "t = TempPath b s" by (auto simp: tempName_def)
  then show ?thesis using tempName_fresh [OF assms] by (simp add: ReceiveBlob_temp_names)
qed

lemma ReceiveBlob_canonical:
  assumes "commits H e b source w"
  shows "files (snd (ReceiveBlob H f e b source ps w)) (blobFileName b) =
     (case otherWriter e of None \<Rightarrow> Some \<lparr>kind = Regular, content = source\<rparr> | Some x \<Rightarrow> x)"
  by (simp add: ReceiveBlob_after_commit(2) [OF assms] afterRename_canonical files_renamed_canonical)

lemma mirror_step_fails_eq:
  assumes "mkdirFault e (blobPartitionDirectoryName p b) \<noteq> None \<or> linkFault e p \<noteq> None \<or>
   files w fn = None \<or> files w (partitionBlobFileName p b) \<noteq> None"
  shows "mirror e fn b (p # ps) w = mirror e fn b [p] w"
  using assms
  by (cases "mkdirFault e (blobPartitionDirectoryName p b)"; cases "linkFault e p";
      cases "files w fn"; cases "files w (partitionBlobFileName p b)";
      simp add: MkdirAll_def Link_def)

lemma mirror_step_error:
  assumes "mkdirFault e (blobPartitionDirectoryName p b) \<noteq> None \<or> linkFault e p \<noteq> None \<or>
   files w (partitionBlobFileName p b) \<noteq> None" and "files w fn \<noteq> None"
  shows "\<exists>en. fst (mirror e fn b (p # ps) w) =
            Some (DirError ''mkdir'' (blobPartitionDirectoryName p b) en) \<or>
          fst (mirror e fn b (p # ps) w) = Some (LinkError fn (partitionBlobFileName p b) en)"
    and "dirs (snd (mirror e fn b (p # ps) w)) = dirs w \<or>
         dirs (snd (mirror e fn b (p # ps) w)) = insert (blobPartitionDirectoryName p b) (dirs w)"
  using assms
  by (cases "mkdirFault e (blobPartitionDirectoryName p b)"; cases "linkFault e p";
      cases "files w fn"; cases "files w (partitionBlobFileName p b)";
      simp add: MkdirAll_def Link_def)+

lemma mirror_append:
  "mirror e fn b (ps @ rest) w =
     (case mirror e fn b ps w of
        (Some err, w1) \<Rightarrow> (Some err, w1)
      | (None, w1) \<Rightarrow> mirror e fn b rest w1)"
proof (induction ps arbitrary: w)
  case Nil
  show ?case by simp
next
  case (Cons p ps)
  show ?case
  proof (cases "mkdirFault e (blobPartitionDirectoryName p b) \<noteq> None \<or> linkFault e p \<noteq> None \<or>
   files w fn = None \<or> files w (partitionBlobFileName p b) \<noteq> None")
    case True
    have "mirror e fn b ((p # ps) @ rest) w = mirror e fn b [p] w"
      using mirror_step_fails_eq [OF True, of "ps @ rest"] by simp
    moreover have "mirror e fn b (p # ps) w = mirror e fn b [p] w"
      by (rule mirror_step_fails_eq [OF True])
    moreover have "fst (mirror e fn b [p] w) \<noteq> None"
      using mirror_step_fails [OF True, of "[]"] by simp
    ultimately show ?thesis
      by (cases "mirror e fn b [p] w") auto
  next
    case False
    then obtain x where x: "files w fn = Some x" by auto
    from False have ok: "mkdirFault e (blobPartitionDirectoryName p b) = None" "linkFault e p = None"
      "files w (partitionBlobFileName p b) = None" by auto
    have "mirror e fn b ((p # ps) @ rest) w = mirror e fn b (ps @ rest) (linked b p x w)"
      using mirror_step_links [OF ok(1,2) x ok(3), of "ps @ rest"] by simp
    then show ?thesis
      by (simp only: Cons.IH mirror_step_links [OF ok(1,2) x ok(3), of ps])
  qed
qed

lemma ReceiveBlob_after_commit_dirs:
  assumes c: "commits H e b source w"
  shows "dirs (snd (ReceiveBlob H f e b source ps w)) =
           dirs (snd (snd (snd (afterRename f e b (int (length source)) ps (blobFileName b)
             (renamed e b source w)))))"
proof -
  from c obtain t where t: "tempName e b w = Some t"
    by (auto simp: commits_def reachesRename_def)
  show ?thesis
    unfolding ReceiveBlob_committed [OF c t] renamed_def
    by (simp add: deferred_def Remove_def split: prod.splits)
qed

lemma notifyMirrors_dirs: "dirs (notifyMirrors b ps w) = dirs w"
  by (induction ps arbitrary: w) (simp_all add: NotifyBlobReceived_def)

lemma undisturbed_call:
  assumes h: "HashMatches H b source" and u: "undisturbed e b"
    and t: "tempName e b w \<noteq> None"
    and d: "map_option kind (files w (blobFileName b)) \<noteq> Some Directory"
  shows "fst (ReceiveBlob H f e b source [] w) =
           (Some \<lparr>BlobRef = b, Size = int (length source)\<rparr>, None) \<and>
         files (snd (ReceiveBlob H f e b source [] w)) (blobFileName b) =
           Some \<lparr>kind = Regular, content = source\<rparr> \<and>
         Lstat e (blobFileName b) (snd (ReceiveBlob H f e b source [] w)) =
           Inr \<lparr>IsRegular = True, stat_Size = int (length source)\<rparr>"
proof -
  have c: "commits H e b source w"
    using h u t d by (simp add: commits_def reachesRename_def undisturbed_def)
  have ow: "otherWriter e = None" and ls: "lstatFault e = None"
    using u by (simp_all add: undisturbed_def)
  have st: "Lstat e (blobFileName b) (renamed e b source w) =
      Inr \<lparr>IsRegular = True, stat_Size = int (length source)\<rparr>"
    using ow ls by (simp add: Lstat_renamed)
  have res: "fst (ReceiveBlob H f e b source [] w) =
           (Some \<lparr>BlobRef = b, Size = int (length source)\<rparr>, None)"
    using afterRename_ok [where ps = "[]" and f = f and b = b, OF st]
    by (simp add: ReceiveBlob_after_commit(1) [OF c])
  have can: "files (snd (ReceiveBlob H f e b source [] w)) (blobFileName b) =
           Some \<lparr>kind = Regular, content = source\<rparr>"
    using ow by (simp add: ReceiveBlob_canonical [OF c])
  show ?thesis using res can ls by (simp add: Lstat_def)
qed

section \<open>Calls that succeed, and calls that find a mirror in place\<close>

lemma success_shape:
  assumes ok: "fst (ReceiveBlob H f e b source ps w) = (Some r, None)"
  obtains st w1 where "commits H e b source w"
    "Lstat e (blobFileName b) (renamed e b source w) = Inr st" "IsRegular st"
    "stat_Size st = int (length source)" "r = \<lparr>BlobRef = b, Size = stat_Size st\<rparr>"
    "mirror e (blobFileName b) b ps (renamed e b source w) = (None, w1)"
    "files (snd (ReceiveBlob H f e b source ps w)) = files w1"
proof -
  have c: "commits H e b source w"
    using ok ReceiveBlob_uncommitted [of H e b source w f ps] by auto
  note rb = ReceiveBlob_after_commit [OF c, of f ps]
  from ok obtain st w1 where
    ar: "afterRename f e b (int (length source)) ps (blobFileName b) (renamed e b source w) =
      (Some \<lparr>BlobRef = b, Size = int (length source)\<rparr>, None, True,
       notifyMirrors b ps (NotifyBlobReceived DefaultPartition b
         (if f then w1\<lparr>viewed := viewed w1 @ [blobFileName b]\<rparr> else w1)))"
    and st: "Lstat e (blobFileName b) (renamed e b source w) = Inr st" "IsRegular st"
      "stat_Size st = int (length source)"
    and mi: "mirror e (blobFileName b) b ps (renamed e b source w) = (None, w1)"
    by (cases rule: afterRename_cases [of f e b "int (length source)" ps "blobFileName b"
          "renamed e b source w"]) (simp_all add: rb(1))
  have f1: "files (snd (ReceiveBlob H f e b source ps w)) = files w1"
    by (simp add: rb ar notifyMirrors_files NotifyBlobReceived_def)
  have r: "r = \<lparr>BlobRef = b, Size = stat_Size st\<rparr>"
    using ok ar st(3) by (simp add: rb(1))
  show ?thesis using that c st r mi f1 by blast
qed

lemma existing_target_fails:
  assumes p: "p \<in> set ps" and ex: "files w (partitionBlobFileName p b) \<noteq> None"
  shows "(\<exists>err. fst (ReceiveBlob H f e b source ps w) = (None, Some err)) \<and>
      notified (snd (ReceiveBlob H f e b source ps w)) = notified w"
proof (cases "commits H e b source w")
  case False
  from ReceiveBlob_uncommitted [OF False, of f ps] show ?thesis by auto
next
  case True
  note rb = ReceiveBlob_after_commit [OF True, of f ps]
  show ?thesis
  proof (cases rule: afterRename_cases [of f e b "int (length source)" ps "blobFileName b"
        "renamed e b source w"])
    case (fails err w1)
    then show ?thesis by (simp add: rb renamed_frame)
  next
    case (ok st w1)
    from mirror_ok [OF ok(5)] p
    have none: "files (renamed e b source w) (partitionBlobFileName p b) = None"
      and some: "files (renamed e b source w) (blobFileName b) \<noteq> None"
      by auto
    have "partitionBlobFileName p b \<noteq> blobFileName b" using none some by auto
    then have "files (renamed e b source w) (partitionBlobFileName p b) =
               files w (partitionBlobFileName p b)"
      by (simp add: renamed_frame)
    with none ex show ?thesis by simp
  qed
qed

lemma retry_fails:
  assumes ne: "ps \<noteq> []" and ok: "fst (ReceiveBlob H f e b source ps w) = (Some r, None)"
  shows "\<exists>err. fst (ReceiveBlob H' f' e' b source' ps (snd (ReceiveBlob H f e b source ps w))) =
                (None, Some err)"
proof -
  from ok obtain st w1 where
    mi: "mirror e (blobFileName b) b ps (renamed e b source w) = (None, w1)"
    and f1: "files (snd (ReceiveBlob H f e b source ps w)) = files w1"
    by (rule success_shape)
  from ne obtain p where p: "p \<in> set ps" by (cases ps) auto
  from mirror_ok [OF mi] p
  have "files w1 (partitionBlobFileName p b) \<noteq> None" by auto
  then have "files (snd (ReceiveBlob H f e b source ps w)) (partitionBlobFileName p b) \<noteq> None"
    by (simp add: f1)
  from existing_target_fails [OF p this] show ?thesis by blast
qed

section \<open>Staging on a batch\<close>

lemma stage_Set:
  "h a = Some (Batch bt) \<Longrightarrow>
   stage a (SetCall k v # ops) h =
     stage a ops (h(a \<mapsto> Batch (bt\<lparr>m := m bt @ [\<lparr>key = k, val = v, delete = False\<rparr>]\<rparr>)))"
  by (simp add: batch_Set_def)

lemma stage_Delete:
  "h a = Some (Batch bt) \<Longrightarrow>
   stage a (DeleteCall k # ops) h =
     stage a ops (h(a \<mapsto> Batch (bt\<lparr>m := m bt @ [\<lparr>key = k, val = [], delete = True\<rparr>]\<rparr>)))"
  by (simp add: batch_Delete_def)

lemma stage_appends:
  "h a = Some (Batch bt) \<Longrightarrow>
   stage a ops h = Some (h(a \<mapsto> Batch (bt\<lparr>m := m bt @ map staged ops\<rparr>)))"
proof (induction ops arbitrary: h bt)
  case Nil
  then show ?case by (simp add: fun_upd_idem)
next
  case (Cons c ops)
  have step: "stage a (c # ops) h = stage a ops (h(a \<mapsto> Batch (bt\<lparr>m := m bt @ [staged c]\<rparr>)))"
    using Cons.prems by (cases c) (simp_all only: stage_Set stage_Delete staged.simps)
  have "stage a ops (h(a \<mapsto> Batch (bt\<lparr>m := m bt @ [staged c]\<rparr>))) =
        Some ((h(a \<mapsto> Batch (bt\<lparr>m := m bt @ [staged c]\<rparr>)))
                (a \<mapsto> Batch (bt\<lparr>m := m bt @ [staged c]\<rparr>
                                  \<lparr>m := m (bt\<lparr>m := m bt @ [staged c]\<rparr>) @ map staged ops\<rparr>)))"
    by (rule Cons.IH) simp
  then show ?case unfolding step by (auto simp: fun_eq_iff)
qed









section \<open>Unfolding on concrete inputs\<close>

lemmas stage_defs = commits_def reachesRename_def tempName_def undisturbed_def

lemmas call_defs = ReceiveBlob_def MkdirAll_def TempFile_def afterTempFile_def Copy_def Sync_def
  Close_def HashMatches_def Rename_def interfere_def Lstat_def Link_def Remove_def
  NotifyBlobReceived_def afterRename_def deferred_def blobDirectoryName_def blobFileName_def
  blobPartitionDirectoryName_def partitionBlobFileName_def DefaultPartition_def Let_def

lemmas input_defs = unaryHash_def ref3_def quiet_def emptyWorld_def

section \<open>The claims\<close>

text \<open>
  C1, as the code has it: a call that does not get through the rename (a failure of the
  directory creation, of the temporary file's creation, of the copy, the sync, the close, the
  hash comparison or the rename itself) returns an error and leaves the names of the storage
  root exactly as they were: the temporary file is removed, and the canonical name holds what
  it held before the call (nothing if it was absent, an earlier committed blob if there was
  one). Once the rename has happened, whatever fails later, the canonical name keeps what the
  rename put there (or what another process put there since): the call never removes it, and
  the temporary name is gone.
\<close>

theorem ReceiveBlob_failure_cleanup:
  "(\<not> commits H e b source w \<longrightarrow>
      (\<exists>err. fst (ReceiveBlob H f e b source ps w) = (None, Some err)) \<and>
      files (snd (ReceiveBlob H f e b source ps w)) = files w \<and>
      (\<forall>t. tempName e b w = Some t \<longrightarrow> files (snd (ReceiveBlob H f e b source ps w)) t = None)) \<and>
   (commits H e b source w \<longrightarrow>
      files (snd (ReceiveBlob H f e b source ps w)) (blobFileName b) =
        (case otherWriter e of None \<Rightarrow> Some \<lparr>kind = Regular, content = source\<rparr> | Some x \<Rightarrow> x) \<and>
      (\<forall>t. tempName e b w = Some t \<longrightarrow> files (snd (ReceiveBlob H f e b source ps w)) t = None))"
proof (cases "commits H e b source w")
  case False
  from ReceiveBlob_uncommitted [OF False, of f ps] show ?thesis
    using False by (auto simp: tempName_fresh)
next
  case True
  then show ?thesis by (simp add: ReceiveBlob_canonical ReceiveBlob_temp_gone)
qed

theorem ReceiveBlob_failure_cleanup_witness:
  "\<not> commits unaryHash failingCopy ref3 [1, 2, 3] emptyWorld \<and>
   fst (ReceiveBlob unaryHash False failingCopy ref3 [1, 2, 3] [] emptyWorld) =
     (None, Some (CopyError EIO)) \<and>
   files (snd (ReceiveBlob unaryHash False failingCopy ref3 [1, 2, 3] [] emptyWorld)) = Map.empty \<and>
   tempName failingCopy ref3 emptyWorld = Some (TempPath ref3 ''0001'') \<and>
   files (snd (ReceiveBlob unaryHash False failingCopy ref3 [1, 2, 3] [] emptyWorld))
     (TempPath ref3 ''0001'') = None \<and>
   commits unaryHash failingLstat ref3 [1, 2, 3] emptyWorld \<and>
   fst (ReceiveBlob unaryHash False failingLstat ref3 [1, 2, 3] [] emptyWorld) =
     (None, Some (PathError ''lstat'' (blobFileName ref3) EIO)) \<and>
   files (snd (ReceiveBlob unaryHash False failingLstat ref3 [1, 2, 3] [] emptyWorld))
     (blobFileName ref3) = Some \<lparr>kind = Regular, content = [1, 2, 3]\<rparr> \<and>
   files (snd (ReceiveBlob unaryHash False failingLstat ref3 [1, 2, 3] [] emptyWorld))
     (TempPath ref3 ''0001'') = None"
proof -
  have a: "\<not> commits unaryHash failingCopy ref3 [1, 2, 3] emptyWorld"
    and b: "commits unaryHash failingLstat ref3 [1, 2, 3] emptyWorld"
    and t: "tempName failingCopy ref3 emptyWorld = Some (TempPath ref3 ''0001'')"
      "tempName failingLstat ref3 emptyWorld = Some (TempPath ref3 ''0001'')"
    by (simp_all add: failingCopy_def failingLstat_def stage_defs call_defs input_defs)
  have e: "fst (ReceiveBlob unaryHash False failingCopy ref3 [1, 2, 3] [] emptyWorld) =
     (None, Some (CopyError EIO))"
    "fst (ReceiveBlob unaryHash False failingLstat ref3 [1, 2, 3] [] emptyWorld) =
     (None, Some (PathError ''lstat'' (blobFileName ref3) EIO))"
    by (simp_all add: failingCopy_def failingLstat_def call_defs input_defs)
  have o: "otherWriter failingLstat = None"
    by (simp add: failingLstat_def quiet_def)
  show ?thesis
    using a b t e o
      ReceiveBlob_failure_cleanup [of unaryHash failingCopy ref3 "[1, 2, 3]" emptyWorld False "[]"]
      ReceiveBlob_failure_cleanup [of unaryHash failingLstat ref3 "[1, 2, 3]" emptyWorld False "[]"]
    by (simp add: emptyWorld_def)
qed

text \<open>
  The claim as the spec words it fails where the blob is already stored: a later call for the
  same reference whose copy breaks fails before the rename, and the canonical name still holds
  the blob committed earlier.
\<close>

theorem ReceiveBlob_failure_cleanup_counterexample:
  "\<not> commits unaryHash failingCopy ref3 [1, 2, 3] storedWorld \<and>
   fst (ReceiveBlob unaryHash False failingCopy ref3 [1, 2, 3] [] storedWorld) =
     (None, Some (CopyError EIO)) \<and>
   files (snd (ReceiveBlob unaryHash False failingCopy ref3 [1, 2, 3] [] storedWorld))
     (blobFileName ref3) = Some \<lparr>kind = Regular, content = [1, 2, 3]\<rparr>"
  by (simp add: storedWorld_def failingCopy_def call_defs input_defs stage_defs)

text \<open>
  C2, as the code has it: when the stream is copied, synced and closed without error and its
  hash is not the claimed one, the call fails with \<open>CorruptBlobError\<close>; afterwards no file
  exists under the temporary name, the names of the storage root are as before the call (so the
  canonical name is absent if it was absent) and no hub is told.
\<close>

theorem ReceiveBlob_corrupt:
  assumes "mkdirFault e (blobDirectoryName b) = None" and "tempFault e = None"
    and "tempName e b w = Some t"
    and "copyFault e = None" and "syncFault e = None" and "closeFault e = None"
    and "\<not> HashMatches H b source"
  shows "fst (ReceiveBlob H f e b source ps w) = (None, Some CorruptBlobError) \<and>
         files (snd (ReceiveBlob H f e b source ps w)) t = None \<and>
         files (snd (ReceiveBlob H f e b source ps w)) = files w \<and>
         notified (snd (ReceiveBlob H f e b source ps w)) = notified w"
proof -
  have "ReceiveBlob H f e b source ps w =
          ((None, Some CorruptBlobError), deferred False t (opened b t source w))"
    using assms by (simp add: ReceiveBlob_temp_ok afterTempFile_corrupt)
  then show ?thesis
    using tempName_fresh [OF assms(3)] by (simp add: deferred_opened)
qed

theorem ReceiveBlob_corrupt_witness:
  "\<not> HashMatches unaryHash ref3 [1, 2] \<and>
   tempName quiet ref3 emptyWorld = Some (TempPath ref3 ''0001'') \<and>
   fst (ReceiveBlob unaryHash False quiet ref3 [1, 2] [''p1''] emptyWorld) =
     (None, Some CorruptBlobError) \<and>
   files (snd (ReceiveBlob unaryHash False quiet ref3 [1, 2] [''p1''] emptyWorld))
     (TempPath ref3 ''0001'') = None \<and>
   files (snd (ReceiveBlob unaryHash False quiet ref3 [1, 2] [''p1''] emptyWorld)) = Map.empty \<and>
   notified (snd (ReceiveBlob unaryHash False quiet ref3 [1, 2] [''p1''] emptyWorld)) = []"
proof -
  have h: "\<not> HashMatches unaryHash ref3 [1, 2]"
    by (simp add: HashMatches_def unaryHash_def ref3_def)
  have t: "tempName quiet ref3 emptyWorld = Some (TempPath ref3 ''0001'')"
    by (simp add: tempName_def quiet_def emptyWorld_def)
  have q: "mkdirFault quiet (blobDirectoryName ref3) = None" "tempFault quiet = None"
    "copyFault quiet = None" "syncFault quiet = None" "closeFault quiet = None"
    by (simp_all add: quiet_def)
  show ?thesis
    using h t ReceiveBlob_corrupt [OF q(1,2) t q(3,4,5) h, of False "[''p1'']"]
    by (simp add: emptyWorld_def)
qed

text \<open>
  With the blob already stored, a stream with another hash sent under the same reference is
  refused as corrupt, and a file exists under the canonical name afterwards: the earlier one.
\<close>

theorem ReceiveBlob_corrupt_counterexample:
  "fst (ReceiveBlob unaryHash False quiet ref3 [1, 2] [] storedWorld) =
     (None, Some CorruptBlobError) \<and>
   files (snd (ReceiveBlob unaryHash False quiet ref3 [1, 2] [] storedWorld)) (blobFileName ref3) =
     Some \<lparr>kind = Regular, content = [1, 2, 3]\<rparr>"
  by (simp add: storedWorld_def call_defs input_defs)

text \<open>
  C3: for a stream whose hash is the claimed one, in an environment where nothing fails, the call
  without mirror partitions succeeds and returns the claimed reference with the size of the
  stream, and the canonical name holds exactly the stream. And in every environment, with any
  partitions, a call that succeeds returns the claimed reference with the size that the
  \<open>Lstat\<close> after the rename reports for the file it finds under the canonical name, a regular
  file.
\<close>

theorem ReceiveBlob_stores:
  "(HashMatches H b source \<and> undisturbed e b \<and> tempName e b w \<noteq> None \<and>
    map_option kind (files w (blobFileName b)) \<noteq> Some Directory \<longrightarrow>
      fst (ReceiveBlob H f e b source [] w) =
        (Some \<lparr>BlobRef = b, Size = int (length source)\<rparr>, None) \<and>
      files (snd (ReceiveBlob H f e b source [] w)) (blobFileName b) =
        Some \<lparr>kind = Regular, content = source\<rparr> \<and>
      Lstat e (blobFileName b) (snd (ReceiveBlob H f e b source [] w)) =
        Inr \<lparr>IsRegular = True, stat_Size = int (length source)\<rparr>) \<and>
   (fst (ReceiveBlob H' f' e' b' source' ps w') = (Some r, None) \<longrightarrow>
      (\<exists>st. Lstat e' (blobFileName b') (renamed e' b' source' w') = Inr st \<and> IsRegular st \<and>
            r = \<lparr>BlobRef = b', Size = stat_Size st\<rparr>))"
proof (intro conjI impI)
  assume a: "HashMatches H b source \<and> undisturbed e b \<and> tempName e b w \<noteq> None \<and>
    map_option kind (files w (blobFileName b)) \<noteq> Some Directory"
  then have h: "HashMatches H b source" and u: "undisturbed e b" and t: "tempName e b w \<noteq> None"
    and d: "map_option kind (files w (blobFileName b)) \<noteq> Some Directory"
    by simp_all
  note call = undisturbed_call [OF h u t d, of f]
  from call show "fst (ReceiveBlob H f e b source [] w) =
        (Some \<lparr>BlobRef = b, Size = int (length source)\<rparr>, None)" by simp
  from call show "files (snd (ReceiveBlob H f e b source [] w)) (blobFileName b) =
        Some \<lparr>kind = Regular, content = source\<rparr>" by simp
  from call show "Lstat e (blobFileName b) (snd (ReceiveBlob H f e b source [] w)) =
        Inr \<lparr>IsRegular = True, stat_Size = int (length source)\<rparr>" by simp
next
  assume ok: "fst (ReceiveBlob H' f' e' b' source' ps w') = (Some r, None)"
  then obtain st where "Lstat e' (blobFileName b') (renamed e' b' source' w') = Inr st"
    "IsRegular st" "r = \<lparr>BlobRef = b', Size = stat_Size st\<rparr>"
    by (rule success_shape)
  then show "\<exists>st. Lstat e' (blobFileName b') (renamed e' b' source' w') = Inr st \<and> IsRegular st \<and>
            r = \<lparr>BlobRef = b', Size = stat_Size st\<rparr>"
    by blast
qed

theorem ReceiveBlob_stores_witness:
  "HashMatches unaryHash ref3 [1, 2, 3] \<and> undisturbed quiet ref3 \<and>
   tempName quiet ref3 emptyWorld \<noteq> None \<and>
   map_option kind (files emptyWorld (blobFileName ref3)) \<noteq> Some Directory \<and>
   fst (ReceiveBlob unaryHash False quiet ref3 [1, 2, 3] [] emptyWorld) =
     (Some \<lparr>BlobRef = ref3, Size = 3\<rparr>, None) \<and>
   files (snd (ReceiveBlob unaryHash False quiet ref3 [1, 2, 3] [] emptyWorld)) (blobFileName ref3) =
     Some \<lparr>kind = Regular, content = [1, 2, 3]\<rparr> \<and>
   Lstat quiet (blobFileName ref3) (snd (ReceiveBlob unaryHash False quiet ref3 [1, 2, 3] [] emptyWorld)) =
     Inr \<lparr>IsRegular = True, stat_Size = 3\<rparr> \<and>
   fst (ReceiveBlob unaryHash False rewriting ref3 [1, 2, 3] [''p1''] emptyWorld) =
     (Some \<lparr>BlobRef = ref3, Size = 3\<rparr>, None) \<and>
   files (renamed rewriting ref3 [1, 2, 3] emptyWorld) (blobFileName ref3) =
     Some \<lparr>kind = Regular, content = [7, 8, 9]\<rparr> \<and>
   Lstat rewriting (blobFileName ref3) (renamed rewriting ref3 [1, 2, 3] emptyWorld) =
     Inr \<lparr>IsRegular = True, stat_Size = 3\<rparr>"
proof -
  have h: "HashMatches unaryHash ref3 [1, 2, 3]"
    by (simp add: HashMatches_def unaryHash_def ref3_def)
  have u: "undisturbed quiet ref3"
    by (simp add: undisturbed_def quiet_def)
  have t: "tempName quiet ref3 emptyWorld \<noteq> None"
    by (simp add: tempName_def quiet_def emptyWorld_def)
  have d: "map_option kind (files emptyWorld (blobFileName ref3)) \<noteq> Some Directory"
    by (simp add: emptyWorld_def)
  have ok: "fst (ReceiveBlob unaryHash False rewriting ref3 [1, 2, 3] [''p1''] emptyWorld) =
     (Some \<lparr>BlobRef = ref3, Size = 3\<rparr>, None)"
    by (simp add: rewriting_def call_defs input_defs)
  have fs: "files (renamed rewriting ref3 [1, 2, 3] emptyWorld) (blobFileName ref3) =
     Some \<lparr>kind = Regular, content = [7, 8, 9]\<rparr>"
    by (simp add: files_renamed_canonical rewriting_def quiet_def)
  note both = ReceiveBlob_stores [of unaryHash ref3 "[1, 2, 3]" quiet emptyWorld False
      unaryHash False rewriting ref3 "[1, 2, 3]" "[''p1'']" emptyWorld
      "\<lparr>BlobRef = ref3, Size = 3\<rparr>"]
  show ?thesis
    using h u t d ok fs both by auto
qed

text \<open>
  C4: after the rename the call stats the canonical name again; when what it finds there is
  not a regular file, or has another size than the bytes streamed, the call fails with the
  error \<open>Written size didn't match.\<close>, and the file under the canonical name stays as found.
\<close>

theorem ReceiveBlob_verification:
  assumes c: "commits H e b source w" and ls: "lstatFault e = None"
    and ow: "otherWriter e = Some (Some x)"
    and bad: "kind x \<noteq> Regular \<or> length (content x) \<noteq> length source"
  shows "fst (ReceiveBlob H f e b source ps w) =
           (None, Some (NewError ''Written size didn't match.'')) \<and>
         files (snd (ReceiveBlob H f e b source ps w)) = (files w)(blobFileName b \<mapsto> x) \<and>
         notified (snd (ReceiveBlob H f e b source ps w)) = notified w"
proof -
  have st: "Lstat e (blobFileName b) (renamed e b source w) =
      Inr \<lparr>IsRegular = (kind x = Regular), stat_Size = int (length (content x))\<rparr>"
    using ow ls by (simp add: Lstat_renamed)
  have "afterRename f e b (int (length source)) ps (blobFileName b) (renamed e b source w) =
      (None, Some (NewError ''Written size didn't match.''), False, renamed e b source w)"
    using bad by (intro afterRename_mismatch [OF st]) auto
  moreover have "files (renamed e b source w) = (files w)(blobFileName b \<mapsto> x)"
    using ow by (simp add: renamed_def interfere_def committed_def)
  ultimately show ?thesis
    by (simp add: ReceiveBlob_after_commit [OF c] renamed_frame)
qed

theorem ReceiveBlob_verification_witness:
  "commits unaryHash truncating ref3 [1, 2, 3] emptyWorld \<and> lstatFault truncating = None \<and>
   otherWriter truncating = Some (Some \<lparr>kind = Regular, content = [1]\<rparr>) \<and>
   fst (ReceiveBlob unaryHash False truncating ref3 [1, 2, 3] [''p1''] emptyWorld) =
     (None, Some (NewError ''Written size didn't match.'')) \<and>
   files (snd (ReceiveBlob unaryHash False truncating ref3 [1, 2, 3] [''p1''] emptyWorld)) =
     [blobFileName ref3 \<mapsto> \<lparr>kind = Regular, content = [1]\<rparr>] \<and>
   notified (snd (ReceiveBlob unaryHash False truncating ref3 [1, 2, 3] [''p1''] emptyWorld)) = []"
proof -
  have c: "commits unaryHash truncating ref3 [1, 2, 3] emptyWorld"
    by (simp add: truncating_def stage_defs call_defs input_defs)
  have l: "lstatFault truncating = None"
    and o: "otherWriter truncating = Some (Some \<lparr>kind = Regular, content = [1]\<rparr>)"
    by (simp_all add: truncating_def quiet_def)
  have b: "kind \<lparr>kind = Regular, content = [1::byte]\<rparr> \<noteq> Regular \<or>
           length (content \<lparr>kind = Regular, content = [1::byte]\<rparr>) \<noteq> length [1::byte, 2, 3]"
    by simp
  show ?thesis
    using c l o ReceiveBlob_verification [OF c l o b, of False "[''p1'']"]
    by (simp add: emptyWorld_def)
qed

text \<open>
  C5: the mirror partitions are processed in the caller's order. When the call with the
  partitions \<open>ps\<close> succeeds and the next partition's directory creation or link fails, the
  call with \<open>ps @ p # qs\<close> fails with that partition's error, the names of the storage root
  are those the call with \<open>ps\<close> alone leaves (the partitions of \<open>ps\<close> linked to the
  canonical file, nothing done for \<open>qs\<close>, nothing undone), and no hub is told.
\<close>

theorem ReceiveBlob_mirror_failure:
  assumes pre: "fst (ReceiveBlob H f e b source ps w) = (Some r, None)"
    and bad: "mkdirFault e (blobPartitionDirectoryName p b) \<noteq> None \<or> linkFault e p \<noteq> None \<or>
       files (snd (ReceiveBlob H f e b source ps w)) (partitionBlobFileName p b) \<noteq> None"
  shows "(\<exists>en. fst (ReceiveBlob H f e b source (ps @ p # qs) w) =
                 (None, Some (DirError ''mkdir'' (blobPartitionDirectoryName p b) en)) \<or>
               fst (ReceiveBlob H f e b source (ps @ p # qs) w) =
                 (None, Some (LinkError (blobFileName b) (partitionBlobFileName p b) en))) \<and>
         files (snd (ReceiveBlob H f e b source (ps @ p # qs) w)) =
           files (snd (ReceiveBlob H f e b source ps w)) \<and>
         files (snd (ReceiveBlob H f e b source (ps @ p # qs) w)) (blobFileName b) \<noteq> None \<and>
         (\<forall>q\<in>set ps. files (snd (ReceiveBlob H f e b source (ps @ p # qs) w)) (partitionBlobFileName q b) =
                      files (snd (ReceiveBlob H f e b source (ps @ p # qs) w)) (blobFileName b)) \<and>
         (dirs (snd (ReceiveBlob H f e b source (ps @ p # qs) w)) =
            dirs (snd (ReceiveBlob H f e b source ps w)) \<or>
          dirs (snd (ReceiveBlob H f e b source (ps @ p # qs) w)) =
            insert (blobPartitionDirectoryName p b) (dirs (snd (ReceiveBlob H f e b source ps w)))) \<and>
         notified (snd (ReceiveBlob H f e b source (ps @ p # qs) w)) = notified w"
proof -
  let ?fn = "blobFileName b" and ?wr = "renamed e b source w" and ?n = "int (length source)"
  have c: "commits H e b source w"
    using pre ReceiveBlob_uncommitted [of H e b source w f ps] by auto
  note short = ReceiveBlob_after_commit [OF c, of f ps] ReceiveBlob_after_commit_dirs [OF c, of f ps]
  note long = ReceiveBlob_after_commit [OF c, of f "ps @ p # qs"]
    ReceiveBlob_after_commit_dirs [OF c, of f "ps @ p # qs"]
  from pre obtain st w1 where
    ar: "afterRename f e b ?n ps ?fn ?wr =
        (Some \<lparr>BlobRef = b, Size = ?n\<rparr>, None, True,
         notifyMirrors b ps (NotifyBlobReceived DefaultPartition b
           (if f then w1\<lparr>viewed := viewed w1 @ [?fn]\<rparr> else w1)))"
    and st: "Lstat e ?fn ?wr = Inr st" "IsRegular st" "stat_Size st = ?n"
    and mi: "mirror e ?fn b ps ?wr = (None, w1)"
    by (cases rule: afterRename_cases [of f e b ?n ps ?fn ?wr]) (simp_all add: short(1))
  have f1: "files (snd (ReceiveBlob H f e b source ps w)) = files w1"
    and d1: "dirs (snd (ReceiveBlob H f e b source ps w)) = dirs w1"
    by (simp_all add: short ar notifyMirrors_files notifyMirrors_dirs NotifyBlobReceived_def)
  from st(1) obtain x where x: "files ?wr ?fn = Some x"
    by (auto simp: Lstat_def split: option.splits)
  have x1: "files w1 ?fn = Some x"
    using mirror_keeps [OF x, of e ?fn b ps] mi by simp
  have bad1: "mkdirFault e (blobPartitionDirectoryName p b) \<noteq> None \<or> linkFault e p \<noteq> None \<or>
       files w1 (partitionBlobFileName p b) \<noteq> None"
    using bad by (simp add: f1)
  then have bad2: "mkdirFault e (blobPartitionDirectoryName p b) \<noteq> None \<or> linkFault e p \<noteq> None \<or>
       files w1 ?fn = None \<or> files w1 (partitionBlobFileName p b) \<noteq> None"
    by blast
  obtain err w2 where m2: "mirror e ?fn b (p # qs) w1 = (Some err, w2)"
    using mirror_step_fails [OF bad2, of qs] by (cases "mirror e ?fn b (p # qs) w1") auto
  have w2: "files w2 = files w1" "notified w2 = notified w1"
    using mirror_step_fails [OF bad2, of qs] m2 by simp_all
  have e2: "\<exists>en. err = DirError ''mkdir'' (blobPartitionDirectoryName p b) en \<or>
                 err = LinkError ?fn (partitionBlobFileName p b) en"
    using mirror_step_error(1) [OF bad1, of ?fn qs] x1 m2 by simp
  have dd: "dirs w2 = dirs w1 \<or> dirs w2 = insert (blobPartitionDirectoryName p b) (dirs w1)"
    using mirror_step_error(2) [OF bad1, of ?fn qs] x1 m2 by simp
  have "mirror e ?fn b (ps @ p # qs) ?wr = (Some err, w2)"
    by (simp add: mirror_append mi m2 del: mirror.simps)
  from afterRename_mirror_fails [OF st this]
  have ar2: "afterRename f e b ?n (ps @ p # qs) ?fn ?wr = (None, Some err, False, w2)" .
  have n1: "notified w1 = notified w"
    using mirror_notified [of e ?fn b ps ?wr] mi by (simp add: renamed_frame)
  have links: "\<forall>q\<in>set ps. files w1 (partitionBlobFileName q b) = files w1 ?fn"
    using mirror_ok [OF mi] x x1 by simp
  show ?thesis
    using e2 dd links x1
    by (simp add: long ar2 w2 f1 d1 n1)
qed

theorem ReceiveBlob_mirror_failure_witness:
  "fst (ReceiveBlob unaryHash False denied ref3 [1, 2, 3] [''p1''] emptyWorld) =
     (Some \<lparr>BlobRef = ref3, Size = 3\<rparr>, None) \<and>
   mkdirFault denied (blobPartitionDirectoryName ''p2'' ref3) = Some EACCES \<and>
   fst (ReceiveBlob unaryHash False denied ref3 [1, 2, 3] [''p1'', ''p2''] emptyWorld) =
     (None, Some (DirError ''mkdir'' (blobPartitionDirectoryName ''p2'' ref3) EACCES)) \<and>
   files (snd (ReceiveBlob unaryHash False denied ref3 [1, 2, 3] [''p1'', ''p2''] emptyWorld)) =
     files (snd (ReceiveBlob unaryHash False denied ref3 [1, 2, 3] [''p1''] emptyWorld)) \<and>
   files (snd (ReceiveBlob unaryHash False denied ref3 [1, 2, 3] [''p1'', ''p2''] emptyWorld))
     (blobFileName ref3) = Some \<lparr>kind = Regular, content = [1, 2, 3]\<rparr> \<and>
   files (snd (ReceiveBlob unaryHash False denied ref3 [1, 2, 3] [''p1'', ''p2''] emptyWorld))
     (partitionBlobFileName ''p1'' ref3) = Some \<lparr>kind = Regular, content = [1, 2, 3]\<rparr> \<and>
   files (snd (ReceiveBlob unaryHash False denied ref3 [1, 2, 3] [''p1'', ''p2''] emptyWorld))
     (partitionBlobFileName ''p2'' ref3) = None \<and>
   notified (snd (ReceiveBlob unaryHash False denied ref3 [1, 2, 3] [''p1'', ''p2''] emptyWorld)) = []"
proof -
  have pre: "fst (ReceiveBlob unaryHash False denied ref3 [1, 2, 3] [''p1''] emptyWorld) =
     (Some \<lparr>BlobRef = ref3, Size = 3\<rparr>, None)"
    by (simp add: denied_def call_defs input_defs)
  have bad: "mkdirFault denied (blobPartitionDirectoryName ''p2'' ref3) = Some EACCES"
    by (simp add: denied_def quiet_def)
  then have bad': "mkdirFault denied (blobPartitionDirectoryName ''p2'' ref3) \<noteq> None \<or>
      linkFault denied ''p2'' \<noteq> None \<or>
      files (snd (ReceiveBlob unaryHash False denied ref3 [1, 2, 3] [''p1''] emptyWorld))
        (partitionBlobFileName ''p2'' ref3) \<noteq> None"
    by simp
  have err: "fst (ReceiveBlob unaryHash False denied ref3 [1, 2, 3] [''p1'', ''p2''] emptyWorld) =
     (None, Some (DirError ''mkdir'' (blobPartitionDirectoryName ''p2'' ref3) EACCES))"
    by (simp add: denied_def call_defs input_defs)
  have fs: "files (snd (ReceiveBlob unaryHash False denied ref3 [1, 2, 3] [''p1''] emptyWorld)) =
      [blobFileName ref3 \<mapsto> \<lparr>kind = Regular, content = [1, 2, 3]\<rparr>,
       partitionBlobFileName ''p1'' ref3 \<mapsto> \<lparr>kind = Regular, content = [1, 2, 3]\<rparr>]"
    by (simp add: denied_def call_defs input_defs)
  from ReceiveBlob_mirror_failure [OF pre bad', of "[]"]
  have f: "files (snd (ReceiveBlob unaryHash False denied ref3 [1, 2, 3] [''p1'', ''p2''] emptyWorld)) =
      files (snd (ReceiveBlob unaryHash False denied ref3 [1, 2, 3] [''p1''] emptyWorld))"
    and n: "notified (snd (ReceiveBlob unaryHash False denied ref3 [1, 2, 3] [''p1'', ''p2''] emptyWorld)) =
      notified emptyWorld"
    by simp_all
  have n': "notified emptyWorld = []"
    by (simp add: emptyWorld_def)
  show ?thesis
    using pre bad err
    by (simp add: f fs n n' blobFileName_def partitionBlobFileName_def DefaultPartition_def)
qed

text \<open>
  C6, as the code has it: \<open>os.Link\<close> does not replace an existing name, and the call does not
  look at the kind of error. So whenever the link target of a listed partition already exists,
  the call fails, returns no result and tells no hub; and after a call with mirror partitions
  has succeeded, every retry with the same reference and partitions fails.
\<close>

theorem ReceiveBlob_existing_mirror:
  "(p \<in> set ps \<and> files w (partitionBlobFileName p b) \<noteq> None \<longrightarrow>
      (\<exists>err. fst (ReceiveBlob H f e b source ps w) = (None, Some err)) \<and>
      notified (snd (ReceiveBlob H f e b source ps w)) = notified w) \<and>
   (ps \<noteq> [] \<and> fst (ReceiveBlob H f e b source ps w) = (Some r, None) \<longrightarrow>
      (\<exists>err. fst (ReceiveBlob H' f' e' b source' ps (snd (ReceiveBlob H f e b source ps w))) =
                (None, Some err)))"
  using existing_target_fails [of p ps w b H f e source]
    retry_fails [of ps H f e b source w r H' f' e' source']
  by blast

theorem ReceiveBlob_existing_mirror_witness:
  "''p1'' \<in> set [''p1''] \<and> files mirroredWorld (partitionBlobFileName ''p1'' ref3) \<noteq> None \<and>
   fst (ReceiveBlob unaryHash False quiet ref3 [1, 2, 3] [''p1''] emptyWorld) =
     (Some \<lparr>BlobRef = ref3, Size = 3\<rparr>, None) \<and>
   (\<exists>err. fst (ReceiveBlob unaryHash False quiet ref3 [1, 2, 3] [''p1''] mirroredWorld) =
      (None, Some err)) \<and>
   notified (snd (ReceiveBlob unaryHash False quiet ref3 [1, 2, 3] [''p1''] mirroredWorld)) =
     notified mirroredWorld"
proof -
  have ex: "files mirroredWorld (partitionBlobFileName ''p1'' ref3) \<noteq> None"
    by (simp add: mirroredWorld_def call_defs input_defs)
  have ok: "fst (ReceiveBlob unaryHash False quiet ref3 [1, 2, 3] [''p1''] emptyWorld) =
     (Some \<lparr>BlobRef = ref3, Size = 3\<rparr>, None)"
    by (simp add: call_defs input_defs)
  show ?thesis
    using ex ok
      ReceiveBlob_existing_mirror [of "''p1''" "[''p1'']" mirroredWorld ref3 unaryHash False quiet
        "[1, 2, 3]"]
    by simp
qed

text \<open>
  The retry of a successful call with the partition \<open>p1\<close>: the link finds its target and the
  call fails with \<open>EEXIST\<close>.
\<close>

theorem ReceiveBlob_existing_mirror_counterexample:
  "fst (ReceiveBlob unaryHash False quiet ref3 [1, 2, 3] [''p1''] emptyWorld) =
     (Some \<lparr>BlobRef = ref3, Size = 3\<rparr>, None) \<and>
   files mirroredWorld (partitionBlobFileName ''p1'' ref3) =
     Some \<lparr>kind = Regular, content = [1, 2, 3]\<rparr> \<and>
   fst (ReceiveBlob unaryHash False quiet ref3 [1, 2, 3] [''p1''] mirroredWorld) =
     (None, Some (LinkError (blobFileName ref3) (partitionBlobFileName ''p1'' ref3) EEXIST))"
  by (simp add: mirroredWorld_def call_defs input_defs)




text \<open>
  C8, as the code has it: without mirror partitions, receiving the same stream under the same
  reference twice succeeds both times with the same result; the second rename replaces the
  file the first one committed, and the names of the storage root are the same after the second
  call as after the first. With mirror partitions, the second of two identical calls fails
  once the first has succeeded: its links find their targets in place.
\<close>

theorem ReceiveBlob_twice:
  "(HashMatches H b source \<and> undisturbed e1 b \<and> undisturbed e2 b \<and>
    tempName e1 b w \<noteq> None \<and> tempName e2 b w \<noteq> None \<and>
    map_option kind (files w (blobFileName b)) \<noteq> Some Directory \<longrightarrow>
      fst (ReceiveBlob H f e1 b source [] w) =
        (Some \<lparr>BlobRef = b, Size = int (length source)\<rparr>, None) \<and>
      fst (ReceiveBlob H f e2 b source [] (snd (ReceiveBlob H f e1 b source [] w))) =
        fst (ReceiveBlob H f e1 b source [] w) \<and>
      files (snd (ReceiveBlob H f e2 b source [] (snd (ReceiveBlob H f e1 b source [] w)))) =
        files (snd (ReceiveBlob H f e1 b source [] w)) \<and>
      files (snd (ReceiveBlob H f e1 b source [] w)) (blobFileName b) =
        Some \<lparr>kind = Regular, content = source\<rparr>) \<and>
   (ps \<noteq> [] \<and> fst (ReceiveBlob H f e1 b source ps w) = (Some r, None) \<longrightarrow>
      (\<exists>err. fst (ReceiveBlob H f e2 b source ps (snd (ReceiveBlob H f e1 b source ps w))) =
                (None, Some err)))"
proof (intro conjI impI)
  assume "ps \<noteq> [] \<and> fst (ReceiveBlob H f e1 b source ps w) = (Some r, None)"
  then show "\<exists>err. fst (ReceiveBlob H f e2 b source ps (snd (ReceiveBlob H f e1 b source ps w))) =
                (None, Some err)"
    using retry_fails [of ps H f e1 b source w r H f e2 source] by blast
next
  assume a: "HashMatches H b source \<and> undisturbed e1 b \<and> undisturbed e2 b \<and>
    tempName e1 b w \<noteq> None \<and> tempName e2 b w \<noteq> None \<and>
    map_option kind (files w (blobFileName b)) \<noteq> Some Directory"
  then have h: "HashMatches H b source" and u1: "undisturbed e1 b" and u2: "undisturbed e2 b"
    and t1: "tempName e1 b w \<noteq> None" and t2: "tempName e2 b w \<noteq> None"
    and d: "map_option kind (files w (blobFileName b)) \<noteq> Some Directory"
    by simp_all
  let ?w1 = "snd (ReceiveBlob H f e1 b source [] w)"
  note first = undisturbed_call [OF h u1 t1 d, of f]
  have t2': "tempName e2 b ?w1 \<noteq> None"
    using t2 by (simp add: tempName_after)
  have d': "map_option kind (files ?w1 (blobFileName b)) \<noteq> Some Directory"
    using first by simp
  note second = undisturbed_call [OF h u2 t2' d', of f]
  have c1: "commits H e1 b source w"
    using h u1 t1 d by (simp add: commits_def reachesRename_def undisturbed_def)
  have c2: "commits H e2 b source ?w1"
    using h u2 t2' d' by (simp add: commits_def reachesRename_def undisturbed_def)
  have ow: "otherWriter e1 = None" "otherWriter e2 = None"
    using u1 u2 by (simp_all add: undisturbed_def)
  have same: "files (snd (ReceiveBlob H f e b source [] v)) = files (renamed e b source v)"
    if "commits H e b source v" for e v
  proof -
    have "files (snd (snd (snd (afterRename f e b (int (length source)) [] (blobFileName b)
             (renamed e b source v))))) name = files (renamed e b source v) name" for name
      by (rule afterRename_other) simp
    then show ?thesis by (simp add: ReceiveBlob_after_commit(2) [OF that] fun_eq_iff)
  qed
  have eq: "files (snd (ReceiveBlob H f e2 b source [] ?w1)) = files ?w1"
    using ow first by (auto simp: same [OF c2] same [OF c1] renamed_def interfere_def committed_def)
  from first show "fst (ReceiveBlob H f e1 b source [] w) =
        (Some \<lparr>BlobRef = b, Size = int (length source)\<rparr>, None)" by simp
  from first second show "fst (ReceiveBlob H f e2 b source [] ?w1) =
        fst (ReceiveBlob H f e1 b source [] w)" by simp
  from eq show "files (snd (ReceiveBlob H f e2 b source [] ?w1)) = files ?w1" .
  from first show "files ?w1 (blobFileName b) = Some \<lparr>kind = Regular, content = source\<rparr>" by simp
qed

theorem ReceiveBlob_twice_witness:
  "HashMatches unaryHash ref3 [1, 2, 3] \<and> undisturbed quiet ref3 \<and>
   tempName quiet ref3 emptyWorld \<noteq> None \<and>
   map_option kind (files emptyWorld (blobFileName ref3)) \<noteq> Some Directory \<and>
   fst (ReceiveBlob unaryHash False quiet ref3 [1, 2, 3] [] emptyWorld) =
     (Some \<lparr>BlobRef = ref3, Size = 3\<rparr>, None) \<and>
   fst (ReceiveBlob unaryHash False quiet ref3 [1, 2, 3] [] storedWorld) =
     (Some \<lparr>BlobRef = ref3, Size = 3\<rparr>, None) \<and>
   files (snd (ReceiveBlob unaryHash False quiet ref3 [1, 2, 3] [] storedWorld)) = files storedWorld \<and>
   files storedWorld (blobFileName ref3) = Some \<lparr>kind = Regular, content = [1, 2, 3]\<rparr> \<and>
   [''p2''] \<noteq> [] \<and>
   fst (ReceiveBlob unaryHash False quiet ref3 [1, 2, 3] [''p2''] emptyWorld) =
     (Some \<lparr>BlobRef = ref3, Size = 3\<rparr>, None) \<and>
   (\<exists>err. fst (ReceiveBlob unaryHash False quiet ref3 [1, 2, 3] [''p2'']
              (snd (ReceiveBlob unaryHash False quiet ref3 [1, 2, 3] [''p2''] emptyWorld))) =
            (None, Some err))"
proof -
  have h: "HashMatches unaryHash ref3 [1, 2, 3]"
    by (simp add: HashMatches_def unaryHash_def ref3_def)
  have u: "undisturbed quiet ref3"
    by (simp add: undisturbed_def quiet_def)
  have t: "tempName quiet ref3 emptyWorld \<noteq> None"
    by (simp add: tempName_def quiet_def emptyWorld_def)
  have d: "map_option kind (files emptyWorld (blobFileName ref3)) \<noteq> Some Directory"
    by (simp add: emptyWorld_def)
  have ok: "fst (ReceiveBlob unaryHash False quiet ref3 [1, 2, 3] [''p2''] emptyWorld) =
     (Some \<lparr>BlobRef = ref3, Size = 3\<rparr>, None)"
    by (simp add: call_defs input_defs)
  note plain = ReceiveBlob_twice [of unaryHash ref3 "[1, 2, 3]" quiet quiet emptyWorld False "[]"]
  note mirrored = ReceiveBlob_twice [of unaryHash ref3 "[1, 2, 3]" quiet quiet emptyWorld False
      "[''p2'']" "\<lparr>BlobRef = ref3, Size = 3\<rparr>"]
  have p: "fst (ReceiveBlob unaryHash False quiet ref3 [1, 2, 3] [] emptyWorld) =
     (Some \<lparr>BlobRef = ref3, Size = 3\<rparr>, None) \<and>
   fst (ReceiveBlob unaryHash False quiet ref3 [1, 2, 3] [] storedWorld) =
     (Some \<lparr>BlobRef = ref3, Size = 3\<rparr>, None) \<and>
   files (snd (ReceiveBlob unaryHash False quiet ref3 [1, 2, 3] [] storedWorld)) = files storedWorld \<and>
   files storedWorld (blobFileName ref3) = Some \<lparr>kind = Regular, content = [1, 2, 3]\<rparr>"
    using h u t d plain by (simp add: storedWorld_def)
  have m: "\<exists>err. fst (ReceiveBlob unaryHash False quiet ref3 [1, 2, 3] [''p2'']
              (snd (ReceiveBlob unaryHash False quiet ref3 [1, 2, 3] [''p2''] emptyWorld))) =
            (None, Some err)"
    using ok mirrored by blast
  show ?thesis using h u t d ok p m by simp
qed

text \<open>
  The same call twice with two mirror partitions: the first succeeds, the second fails at the
  link of the first partition.
\<close>

theorem ReceiveBlob_twice_counterexample:
  "fst (ReceiveBlob unaryHash False quiet ref3 [1, 2, 3] [''p1'', ''p2''] emptyWorld) =
     (Some \<lparr>BlobRef = ref3, Size = 3\<rparr>, None) \<and>
   fst (ReceiveBlob unaryHash False quiet ref3 [1, 2, 3] [''p1'', ''p2'']
          (snd (ReceiveBlob unaryHash False quiet ref3 [1, 2, 3] [''p1'', ''p2''] emptyWorld))) =
     (None, Some (LinkError (blobFileName ref3) (partitionBlobFileName ''p1'' ref3) EEXIST))"
  by (simp add: call_defs input_defs)

text \<open>
  C9: staging any sequence of set and delete calls on a batch appends the mutations, in order,
  to that batch's own list and changes no other object of the store; the key/value table
  behind the index is as it was.
\<close>

theorem stage_leaves_store:
  assumes "h a = Some (Batch bt)" and "h s = Some (Store kv)"
  shows "\<exists>h'. stage a ops h = Some h' \<and>
           h' s = Some (Store kv) \<and>
           h' a = Some (Batch (bt\<lparr>m := m bt @ map staged ops\<rparr>)) \<and>
           (\<forall>x. x \<noteq> a \<longrightarrow> h' x = h x)"
proof -
  have "s \<noteq> a" using assms by auto
  then show ?thesis using assms by (simp add: stage_appends)
qed

theorem stage_leaves_store_witness:
  "indexHeap 1 = Some (Batch \<lparr>m = []\<rparr>) \<and> indexHeap 0 = Some (Store [''k'' \<mapsto> ''v'']) \<and>
   (\<exists>h'. stage 1 [SetCall ''a'' ''1'', DeleteCall ''k'', SetCall ''b'' ''2''] indexHeap = Some h' \<and>
      h' 0 = Some (Store [''k'' \<mapsto> ''v'']) \<and>
      h' 1 = Some (Batch \<lparr>m = [\<lparr>key = ''a'', val = ''1'', delete = False\<rparr>,
                                 \<lparr>key = ''k'', val = [], delete = True\<rparr>,
                                 \<lparr>key = ''b'', val = ''2'', delete = False\<rparr>]\<rparr>))"
proof -
  have a: "indexHeap 1 = Some (Batch \<lparr>m = []\<rparr>)"
    and s: "indexHeap 0 = Some (Store [''k'' \<mapsto> ''v''])"
    by (simp_all add: indexHeap_def)
  show ?thesis
    using a s stage_leaves_store [OF a s, of "[SetCall ''a'' ''1'', DeleteCall ''k'', SetCall ''b'' ''2'']"]
    by auto
qed

text \<open>
  C10: every call returns exactly one of the two outcomes: a result and no error, or an error
  and no result; never both and never neither.
\<close>

theorem ReceiveBlob_result_or_error:
  "case fst (ReceiveBlob H f e b source ps w) of
     (Some r, None) \<Rightarrow> True
   | (None, Some err) \<Rightarrow> True
   | _ \<Rightarrow> False"
proof (cases "commits H e b source w")
  case False
  from ReceiveBlob_uncommitted [OF False, of f ps] show ?thesis by auto
next
  case True
  show ?thesis
    unfolding ReceiveBlob_after_commit(1) [OF True]
    by (cases rule: afterRename_cases [of f e b "int (length source)" ps "blobFileName b"
          "renamed e b source w"]) simp_all
qed

theorem ReceiveBlob_result_or_error_witness:
  "(case fst (ReceiveBlob unaryHash False quiet ref3 [1, 2] [] emptyWorld) of
      (Some r, None) \<Rightarrow> True
    | (None, Some err) \<Rightarrow> True
    | _ \<Rightarrow> False) \<and>
   fst (ReceiveBlob unaryHash False quiet ref3 [1, 2] [] emptyWorld) = (None, Some CorruptBlobError)"
  using ReceiveBlob_result_or_error [of unaryHash False quiet ref3 "[1, 2]" "[]" emptyWorld]
  by (simp add: call_defs input_defs)

end
